theory Spec2Isabelle
  imports
    Complex_Main
    "HOL-Library.Char_ord"
    "HOL-Library.List_Lexorder"
    "HOL-Library.Product_Lexorder"
    "HOL-Library.Multiset"
begin

section \<open>Data model\<close>

text \<open>
  The program is one script, \<^verbatim>\<open>comparison.py\<close>, that works on pandas data frames.
  A data frame cell is text, a number or missing (\<^verbatim>\<open>NaN\<close>/\<^verbatim>\<open>None\<close>).
  A number is the rational value of the cell as the reader parsed it; the arithmetic of
  the mean rounds as 64-bit floating point does.
\<close>

datatype cell = Str string | Num rat | NA

text \<open>
  A row of a fetched dataset. The \<^verbatim>\<open>Entity\<close> column holds names, the \<^verbatim>\<open>Year\<close>
  column holds integers (both without missing entries, as in the datasets the
  script is written for); every other column is looked up by name in \<open>others\<close>.
\<close>

record row =
  Entity :: string
  Year :: int
  others :: "string \<Rightarrow> cell"

record table =
  columns :: "string list"
  rows :: "row list"

definition cell_at :: "row \<Rightarrow> string \<Rightarrow> cell" where
  "cell_at r col =
     (if col = ''Entity'' then Str (Entity r)
      else if col = ''Year'' then Num (of_int (Year r))
      else others r col)"

definition isna :: "cell \<Rightarrow> bool" where
  "isna c = (case c of NA \<Rightarrow> True | _ \<Rightarrow> False)"

definition is_text :: "cell \<Rightarrow> bool" where
  "is_text c = (case c of Str _ \<Rightarrow> True | _ \<Rightarrow> False)"

datatype py_exception =
  TypeError | ValueError | AttributeError | KeyError | RequestException | ParserError
  | EmptyDataError

datatype error =
  InvalidFormat
  | NoDataForCountry string
  | ColumnNotFound
  | MissingCurrentValue
  | Unhandled py_exception

section \<open>Strings\<close>

text \<open>
  \<^verbatim>\<open>str.lower()\<close> on the ASCII letters (other characters are left as they are), and
  the substring test \<^verbatim>\<open>sub in s\<close>.
\<close>

definition lower_char :: "char \<Rightarrow> char" where
  "lower_char c =
     (case map_of (zip ''ABCDEFGHIJKLMNOPQRSTUVWXYZ'' ''abcdefghijklmnopqrstuvwxyz'') c of
        Some d \<Rightarrow> d
      | None \<Rightarrow> c)"

definition lower :: "string \<Rightarrow> string" where
  "lower s = map lower_char s"

fun startswith :: "string \<Rightarrow> string \<Rightarrow> bool" where
  "startswith s [] = True"
| "startswith [] (p # ps) = False"
| "startswith (c # cs) (p # ps) = (c = p \<and> startswith cs ps)"

fun str_in :: "string \<Rightarrow> string \<Rightarrow> bool" where
  "str_in sub [] = (sub = [])"
| "str_in sub (c # cs) = (startswith (c # cs) sub \<or> str_in sub cs)"

section \<open>The comparison (lines 144 to 203 and 313 to 316)\<close>

subsection \<open>Finding the metric column (lines 157 to 167)\<close>

definition metric_column :: "string list \<Rightarrow> string \<Rightarrow> error + string" where
  "metric_column cols selected_metric =
     (let metric_columns = filter (\<lambda>col. str_in (lower selected_metric) (lower col)) cols
      in case metric_columns of
           [] \<Rightarrow>
             (let potential_columns =
                    filter (\<lambda>col. col \<notin> set [''Entity'', ''Year'', ''Code'']) cols
              in case potential_columns of
                   c # _ \<Rightarrow> Inr c
                 | [] \<Rightarrow> Inl ColumnNotFound)
         | c # _ \<Rightarrow> Inr c)"

subsection \<open>Aggregates of a column (pandas \<^verbatim>\<open>max\<close>, \<^verbatim>\<open>min\<close>, \<^verbatim>\<open>mean\<close>, \<^verbatim>\<open>idxmax\<close>, \<^verbatim>\<open>idxmin\<close>)\<close>

text \<open>The aggregates skip missing cells; \<open>None\<close> stands for the result \<^verbatim>\<open>NaN\<close>.\<close>

fun nums :: "cell list \<Rightarrow> rat list" where
  "nums [] = []"
| "nums (Num x # cs) = x # nums cs"
| "nums (c # cs) = nums cs"

definition series_max :: "cell list \<Rightarrow> rat option" where
  "series_max cs = (case nums cs of [] \<Rightarrow> None | x # xs \<Rightarrow> Some (fold max xs x))"

definition series_min :: "cell list \<Rightarrow> rat option" where
  "series_min cs = (case nums cs of [] \<Rightarrow> None | x # xs \<Rightarrow> Some (fold min xs x))"

text \<open>
  The mean is computed in 64-bit floating point: the values are converted to doubles and
  added with rounding after every addition, and the sum is divided by the count with one
  more rounding. \<open>float64\<close> rounds a rational number to the nearest double, ties to the
  even significand: \<open>round_small\<close> doubles a number below \<open>2 ^ 52\<close> until it has 53 bits
  before the point, at most 1074 times (the spacing of the subnormal numbers), and
  \<open>round_large\<close> halves a number from \<open>2 ^ 53\<close> on, at most 971 times (the largest binade).
  Magnitudes from \<open>2 ^ 1024\<close> on, where the hardware gives infinity, are outside the
  model. The additions are made in row order, starting from zero; the library may group
  the additions of a long column in another way.
\<close>

definition round_half_even :: "rat \<Rightarrow> int" where
  "round_half_even x =
     (let f = \<lfloor>x\<rfloor>; d = x - of_int f
      in if d < 1 / 2 then f
         else if 1 / 2 < d then f + 1
         else if even f then f else f + 1)"

fun round_small :: "nat \<Rightarrow> rat \<Rightarrow> rat" where
  "round_small 0 x = of_int (round_half_even x)"
| "round_small (Suc k) x =
     (if x < 2 ^ 52 then round_small k (2 * x) / 2 else of_int (round_half_even x))"

fun round_large :: "nat \<Rightarrow> rat \<Rightarrow> rat" where
  "round_large 0 x = of_int (round_half_even x)"
| "round_large (Suc k) x =
     (if 2 ^ 53 \<le> x then 2 * round_large k (x / 2) else of_int (round_half_even x))"

definition float64_pos :: "rat \<Rightarrow> rat" where
  "float64_pos x = (if x < 2 ^ 52 then round_small 1074 x else round_large 971 x)"

definition float64 :: "rat \<Rightarrow> rat" where
  "float64 x = (if x < 0 then - float64_pos (- x) else float64_pos x)"

definition float_sum :: "rat list \<Rightarrow> rat" where
  "float_sum xs = fold (\<lambda>x s. float64 (s + float64 x)) xs 0"

definition series_mean :: "cell list \<Rightarrow> rat option" where
  "series_mean cs =
     (case nums cs of
        [] \<Rightarrow> None
      | x # xs \<Rightarrow> Some (float64 (float_sum (x # xs) / of_nat (length (x # xs)))))"

text \<open>
  \<^verbatim>\<open>idxmax\<close>/\<^verbatim>\<open>idxmin\<close> give the label of the first row that holds the extreme value.
  What they do on a column with no value at all depends on the pandas release:
  the documented result is a missing label, which is what the script tests with
  \<^verbatim>\<open>pd.isna\<close> before it uses the label; later releases raise \<^verbatim>\<open>ValueError\<close>
  instead. Both are modelled, selected by \<open>all_na\<close>.
\<close>

datatype all_na = ReturnsNA | Raises

definition year_at :: "all_na \<Rightarrow> rat option \<Rightarrow> row list \<Rightarrow> string \<Rightarrow> py_exception + int option" where
  "year_at pol extreme rs col =
     (case extreme of
        None \<Rightarrow> (case pol of ReturnsNA \<Rightarrow> Inr None | Raises \<Rightarrow> Inl ValueError)
      | Some m \<Rightarrow> Inr (map_option Year (find (\<lambda>r. cell_at r col = Num m) rs)))"

record stats =
  stat_max :: "rat option"
  stat_min :: "rat option"
  stat_mean :: "rat option"
  max_year :: "int option"
  min_year :: "int option"

text \<open>
  Lines 181 to 199. A text cell in the column makes \<^verbatim>\<open>mean()\<close> raise \<^verbatim>\<open>TypeError\<close>.
\<close>

definition country_stats :: "all_na \<Rightarrow> row list \<Rightarrow> string \<Rightarrow> py_exception + stats" where
  "country_stats pol rs col =
     (let cs = map (\<lambda>r. cell_at r col) rs
      in if list_ex is_text cs then Inl TypeError
         else case year_at pol (series_max cs) rs col of
                Inl e \<Rightarrow> Inl e
              | Inr maxy \<Rightarrow>
                  (case year_at pol (series_min cs) rs col of
                     Inl e \<Rightarrow> Inl e
                   | Inr miny \<Rightarrow>
                       Inr \<lparr>stat_max = series_max cs, stat_min = series_min cs,
                            stat_mean = series_mean cs, max_year = maxy, min_year = miny\<rparr>))"

subsection \<open>Latest year and current value (lines 170 to 178)\<close>

definition year_max :: "row list \<Rightarrow> int option" where
  "year_max rs = (case rs of [] \<Rightarrow> None | r # rest \<Rightarrow> Some (fold max (map Year rest) (Year r)))"

definition latest_rows :: "row list \<Rightarrow> row list" where
  "latest_rows rs = filter (\<lambda>r. Some (Year r) = year_max rs) rs"

definition latest_value :: "row list \<Rightarrow> string \<Rightarrow> cell" where
  "latest_value rs col = (case latest_rows rs of [] \<Rightarrow> NA | r # _ \<Rightarrow> cell_at r col)"

subsection \<open>The combined rows (lines 313 to 316)\<close>

type_synonym combined_row = "string \<times> int \<times> cell"

definition select_cols :: "string \<Rightarrow> row \<Rightarrow> combined_row" where
  "select_cols col r = (Entity r, Year r, cell_at r col)"

definition sort_key_of :: "combined_row \<Rightarrow> string \<times> int" where
  "sort_key_of x = (fst x, fst (snd x))"

definition combine :: "row list \<Rightarrow> row list \<Rightarrow> string \<Rightarrow> combined_row list" where
  "combine a_data b_data col =
     sort_key sort_key_of (map (select_cols col) a_data @ map (select_cols col) b_data)"

subsection \<open>The whole comparison\<close>

record comparison =
  metric_col :: string
  latest_year_a :: "int option"
  latest_year_b :: "int option"
  value_a :: rat
  value_b :: rat
  delta :: rat
  country_a_stats :: stats
  country_b_stats :: stats
  combined_data :: "combined_row list"

definition country_data :: "table \<Rightarrow> string \<Rightarrow> row list" where
  "country_data t country = filter (\<lambda>r. Entity r = country) (rows t)"

text \<open>
  The statistics of both countries are computed before the current values are tested
  (line 201). Formatting a text value with \<^verbatim>\<open>:,.2f\<close> raises \<^verbatim>\<open>ValueError\<close>. Selecting
  \<^verbatim>\<open>["Entity", "Year", metric_column]\<close> when the metric column is one of the first two
  gives a frame with a repeated label, on which \<^verbatim>\<open>sort_values\<close> raises \<^verbatim>\<open>ValueError\<close>.
  Drawing the cards and the charts is left out.
\<close>

definition compare_with ::
  "all_na \<Rightarrow> table \<Rightarrow> string \<Rightarrow> string \<Rightarrow> string \<Rightarrow> error + comparison" where
  "compare_with pol t country_a country_b selected_metric =
     (if ''Entity'' \<notin> set (columns t) \<or> ''Year'' \<notin> set (columns t) then Inl InvalidFormat
      else
        let a_data = country_data t country_a;
            b_data = country_data t country_b
        in if a_data = [] then Inl (NoDataForCountry country_a)
           else if b_data = [] then Inl (NoDataForCountry country_b)
           else case metric_column (columns t) selected_metric of
                  Inl e \<Rightarrow> Inl e
                | Inr col \<Rightarrow>
                    (case country_stats pol a_data col of
                       Inl e \<Rightarrow> Inl (Unhandled e)
                     | Inr sa \<Rightarrow>
                         (case country_stats pol b_data col of
                            Inl e \<Rightarrow> Inl (Unhandled e)
                          | Inr sb \<Rightarrow>
                              (let va = latest_value a_data col;
                                   vb = latest_value b_data col
                               in if isna va \<or> isna vb then Inl MissingCurrentValue
                                  else case (va, vb) of
                                         (Num x, Num y) \<Rightarrow>
                                           if col = ''Entity'' \<or> col = ''Year''
                                           then Inl (Unhandled ValueError)
                                           else Inr \<lparr>metric_col = col,
                                                     latest_year_a = year_max a_data,
                                                     latest_year_b = year_max b_data,
                                                     value_a = x, value_b = y,
                                                     delta = y - x,
                                                     country_a_stats = sa,
                                                     country_b_stats = sb,
                                                     combined_data = combine a_data b_data col\<rparr>
                                       | _ \<Rightarrow> Inl (Unhandled ValueError)))))"

text \<open>The script as written relies on the documented result of \<^verbatim>\<open>idxmax\<close>.\<close>

definition compare :: "table \<Rightarrow> string \<Rightarrow> string \<Rightarrow> string \<Rightarrow> error + comparison" where
  "compare = compare_with ReturnsNA"

section \<open>Fetching a dataset (lines 48 to 66)\<close>

text \<open>
  \<^verbatim>\<open>requests.get\<close> and \<^verbatim>\<open>pd.read_csv\<close> belong to libraries; they are parameters of
  \<open>fetch_country_data\<close>. Each of them returns a value or raises. The function catches
  every exception (line 64): it reports the failure and returns \<^verbatim>\<open>None\<close>, here the \<open>Inl\<close>
  results.
\<close>

record response =
  status_code :: int
  content :: string

datatype fetch_failure = BadStatus int | Caught py_exception

definition fetch_country_data ::
  "(string \<Rightarrow> py_exception + response) \<Rightarrow> (string \<Rightarrow> py_exception + table) \<Rightarrow> string
     \<Rightarrow> fetch_failure + table" where
  "fetch_country_data get read_csv url =
     (case get url of
        Inl e \<Rightarrow> Inl (Caught e)
      | Inr response \<Rightarrow>
          if status_code response = 200
          then (case read_csv (content response) of
                  Inl e \<Rightarrow> Inl (Caught e)
                | Inr data \<Rightarrow> Inr data)
          else Inl (BadStatus (status_code response)))"

text \<open>
  Modelled from the spec: \<^verbatim>\<open>pd.read_csv\<close>, which is library code, as far as a body without
  data rows goes ("an empty Table rather than throwing, if the column header is still
  parseable; otherwise fails"). With the reader's defaults the body is cut at its line
  ends, lines that are empty or hold only blanks and tabs are skipped, a body with no
  line left raises \<^verbatim>\<open>EmptyDataError\<close>, and the first line left is the header. Turning the
  header into column names and the data lines into rows stays with the library: these
  two are parameters, and each may raise.
\<close>

fun split_lines :: "string \<Rightarrow> string list" where
  "split_lines [] = [[]]"
| "split_lines (c # cs) =
     (if c = CHR 0x0A \<or> c = CHR 0x0D then [] # split_lines cs
      else (case split_lines cs of l # ls \<Rightarrow> (c # l) # ls | [] \<Rightarrow> [[c]]))"

definition is_blank :: "string \<Rightarrow> bool" where
  "is_blank l = list_all (\<lambda>c. c = CHR '' '' \<or> c = CHR 0x09) l"

definition csv_records :: "string \<Rightarrow> string list" where
  "csv_records body = filter (\<lambda>l. \<not> is_blank l) (split_lines body)"

definition pd_read_csv ::
  "(string \<Rightarrow> py_exception + string list) \<Rightarrow>
   (string list \<Rightarrow> string list \<Rightarrow> py_exception + row list) \<Rightarrow> string \<Rightarrow> py_exception + table" where
  "pd_read_csv parse_header parse_rows body =
     (case csv_records body of
        [] \<Rightarrow> Inl EmptyDataError
      | header # records \<Rightarrow>
          (case parse_header header of
             Inl e \<Rightarrow> Inl e
           | Inr cols \<Rightarrow>
               (case records of
                  [] \<Rightarrow> Inr \<lparr>columns = cols, rows = []\<rparr>
                | _ \<Rightarrow> (case parse_rows cols records of
                          Inl e \<Rightarrow> Inl e
                        | Inr rs \<Rightarrow> Inr \<lparr>columns = cols, rows = rs\<rparr>))))"

section \<open>Loading the catalog (lines 21 to 45)\<close>

record catalog_entry =
  metric :: cell
  link :: cell

record catalog =
  cat_columns :: "string list"
  entries :: "catalog_entry list"

text \<open>\<^verbatim>\<open>df.dropna(subset=["data link full column names"])\<close>; a missing column raises.\<close>

definition dropna_link :: "catalog \<Rightarrow> py_exception + catalog" where
  "dropna_link df =
     (if ''data link full column names'' \<in> set (cat_columns df)
      then Inr (df\<lparr>entries := filter (\<lambda>e. \<not> isna (link e)) (entries df)\<rparr>)
      else Inl KeyError)"

text \<open>
  \<open>local_file\<close> is \<open>None\<close> when the path does not exist and \<open>uploaded_file\<close> is \<open>None\<close>
  when nothing was uploaded; otherwise each holds what \<^verbatim>\<open>pd.read_excel\<close> does on it.
  Every exception is caught and turned into \<^verbatim>\<open>None\<close>.
\<close>

definition load_dataset ::
  "(py_exception + catalog) option \<Rightarrow> (py_exception + catalog) option \<Rightarrow> catalog option" where
  "load_dataset local_file uploaded_file =
     (let read =
            (case local_file of
               Some r \<Rightarrow> Some r
             | None \<Rightarrow> (case uploaded_file of Some r \<Rightarrow> Some r | None \<Rightarrow> None))
      in case read of
           None \<Rightarrow> None
         | Some (Inl e) \<Rightarrow> None
         | Some (Inr df) \<Rightarrow> (case dropna_link df of Inl e \<Rightarrow> None | Inr df' \<Rightarrow> Some df'))"

text \<open>
  Modelled from the spec: \<^verbatim>\<open>pd.read_excel\<close>, which is library code, hands over an
  "empty/missing link" as missing. By the reader's documentation, lines 29 and 36 call it
  with its default missing-value markers, so an empty cell and a text cell that holds one
  of the markers, the empty text among them, arrive as \<^verbatim>\<open>NaN\<close>. \<open>pd_read_excel\<close> takes
  the cells as the workbook stores them and gives the frame the script receives.
\<close>

definition default_na_values :: "string list" where
  "default_na_values =
     [[], ''#N/A'', ''#N/A N/A'', ''#NA'', ''-1.#IND'', ''-1.#QNAN'', ''-NaN'', ''-nan'',
      ''1.#IND'', ''1.#QNAN'', ''<NA>'', ''N/A'', ''NA'', ''NULL'', ''NaN'', ''None'',
      ''n/a'', ''nan'', ''null'']"

definition read_cell :: "cell \<Rightarrow> cell" where
  "read_cell c =
     (case c of
        Str s \<Rightarrow> if s \<in> set default_na_values then NA else Str s
      | _ \<Rightarrow> c)"

definition read_entry :: "catalog_entry \<Rightarrow> catalog_entry" where
  "read_entry e = \<lparr>metric = read_cell (metric e), link = read_cell (link e)\<rparr>"

definition pd_read_excel :: "catalog \<Rightarrow> catalog" where
  "pd_read_excel sheet = sheet\<lparr>entries := map read_entry (entries sheet)\<rparr>"

section \<open>The country list (lines 69 to 108)\<close>









section \<open>The worked example\<close>

definition gdp_row :: "string \<Rightarrow> int \<Rightarrow> cell \<Rightarrow> row" where
  "gdp_row e y v = \<lparr>Entity = e, Year = y, others = (\<lambda>_. NA)(''GDP per capita'' := v)\<rparr>"

definition example_table :: table where
  "example_table =
     \<lparr>columns = [''Entity'', ''Code'', ''Year'', ''GDP per capita''],
      rows = [gdp_row ''Wakanda'' 2000 (Num 100), gdp_row ''Wakanda'' 2010 (Num 200),
              gdp_row ''Wakanda'' 2020 (Num 150), gdp_row ''Genovia'' 2005 (Num 50),
              gdp_row ''Genovia'' 2015 (Num 80)]\<rparr>"

text \<open>A table without any value column.\<close>

definition no_value_table :: table where
  "no_value_table =
     \<lparr>columns = [''Entity'', ''Code'', ''Year''],
      rows = [\<lparr>Entity = ''Wakanda'', Year = 2000, others = (\<lambda>_. NA)\<rparr>,
              \<lparr>Entity = ''Genovia'', Year = 2005, others = (\<lambda>_. NA)\<rparr>]\<rparr>"

definition example_result :: comparison where
  "example_result =
     \<lparr>metric_col = ''GDP per capita'',
      latest_year_a = Some 2020, latest_year_b = Some 2015,
      value_a = 150, value_b = 80, delta = - 70,
      country_a_stats = \<lparr>stat_max = Some 200, stat_min = Some 100, stat_mean = Some 150,
                          max_year = Some 2010, min_year = Some 2000\<rparr>,
      country_b_stats = \<lparr>stat_max = Some 80, stat_min = Some 50, stat_mean = Some 65,
                          max_year = Some 2015, min_year = Some 2005\<rparr>,
      combined_data = [(''Genovia'', 2005, Num 50), (''Genovia'', 2015, Num 80),
                       (''Wakanda'', 2000, Num 100), (''Wakanda'', 2010, Num 200),
                       (''Wakanda'', 2020, Num 150)]\<rparr>"

text \<open>A table in which one of Wakanda's rows, not the latest, has no value.\<close>

definition gap_table :: table where
  "gap_table =
     \<lparr>columns = [''Entity'', ''Code'', ''Year'', ''GDP per capita''],
      rows = [gdp_row ''Wakanda'' 2000 (Num 100), gdp_row ''Wakanda'' 2010 NA,
              gdp_row ''Wakanda'' 2020 (Num 150), gdp_row ''Genovia'' 2005 (Num 50),
              gdp_row ''Genovia'' 2015 (Num 80)]\<rparr>"

definition gap_result :: comparison where
  "gap_result =
     \<lparr>metric_col = ''GDP per capita'',
      latest_year_a = Some 2020, latest_year_b = Some 2015,
      value_a = 150, value_b = 80, delta = - 70,
      country_a_stats = \<lparr>stat_max = Some 150, stat_min = Some 100, stat_mean = Some 125,
                          max_year = Some 2020, min_year = Some 2000\<rparr>,
      country_b_stats = \<lparr>stat_max = Some 80, stat_min = Some 50, stat_mean = Some 65,
                          max_year = Some 2015, min_year = Some 2005\<rparr>,
      combined_data = [(''Genovia'', 2005, Num 50), (''Genovia'', 2015, Num 80),
                       (''Wakanda'', 2000, Num 100), (''Wakanda'', 2010, NA),
                       (''Wakanda'', 2020, Num 150)]\<rparr>"

text \<open>
  The combined rows as the specification words them: only the rows with a value, sorted.
  This is not what the script computes; it is here to be compared with \<open>combine\<close>.
\<close>

definition claimed_combined :: "table \<Rightarrow> string \<Rightarrow> string \<Rightarrow> string \<Rightarrow> combined_row list" where
  "claimed_combined t country_a country_b col =
     sort_key sort_key_of
       (filter (\<lambda>x. \<not> isna (snd (snd x)))
          (map (select_cols col) (country_data t country_a @ country_data t country_b)))"

text \<open>A table in which Wakanda's latest row has no value, while earlier rows have one.\<close>

definition stale_table :: table where
  "stale_table =
     \<lparr>columns = [''Entity'', ''Code'', ''Year'', ''GDP per capita''],
      rows = [gdp_row ''Wakanda'' 2000 (Num 100), gdp_row ''Wakanda'' 2010 (Num 200),
              gdp_row ''Wakanda'' 2020 NA, gdp_row ''Genovia'' 2005 (Num 50),
              gdp_row ''Genovia'' 2015 (Num 80)]\<rparr>"

text \<open>A table in which Wakanda has rows, none of them with a value.\<close>

definition all_missing_table :: table where
  "all_missing_table =
     \<lparr>columns = [''Entity'', ''Code'', ''Year'', ''GDP per capita''],
      rows = [gdp_row ''Wakanda'' 2000 NA, gdp_row ''Wakanda'' 2010 NA,
              gdp_row ''Genovia'' 2005 (Num 50), gdp_row ''Genovia'' 2015 (Num 80)]\<rparr>"




text \<open>Catalogs for the examples.\<close>

definition entry :: "string \<Rightarrow> cell \<Rightarrow> catalog_entry" where
  "entry m l = \<lparr>metric = Str m, link = l\<rparr>"

definition catalog_of :: "catalog_entry list \<Rightarrow> catalog" where
  "catalog_of es = \<lparr>cat_columns = [''metric'', ''data link full column names''], entries = es\<rparr>"

definition blank_link_sheet :: catalog where
  "blank_link_sheet =
     catalog_of [entry ''GDP per capita'' (Str ''https://example.org/data.csv''),
                 entry ''Population'' NA,
                 entry ''Life expectancy'' (Str [])]"




text \<open>The double nearest to 0.1, and a table in which Wakanda has this value three times.\<close>

definition tenth :: rat where
  "tenth = 3602879701896397 / 2 ^ 55"

definition tenth_table :: table where
  "tenth_table =
     \<lparr>columns = [''Entity'', ''Code'', ''Year'', ''GDP per capita''],
      rows = [gdp_row ''Wakanda'' 2000 (Num tenth), gdp_row ''Wakanda'' 2010 (Num tenth),
              gdp_row ''Wakanda'' 2020 (Num tenth), gdp_row ''Genovia'' 2005 (Num 50),
              gdp_row ''Genovia'' 2015 (Num 80)]\<rparr>"

text \<open>
  Stand-ins for the examples of the reader: a header cut at its commas, data lines that
  the reader rejects, and a server that answers with a header only, with an empty body
  and with status 204.
\<close>

fun split_commas :: "string \<Rightarrow> string list" where
  "split_commas [] = [[]]"
| "split_commas (c # cs) =
     (if c = CHR '','' then [] # split_commas cs
      else (case split_commas cs of f # fs \<Rightarrow> (c # f) # fs | [] \<Rightarrow> [[c]]))"

definition plain_header :: "string \<Rightarrow> py_exception + string list" where
  "plain_header h = Inr (split_commas h)"

definition no_rows :: "string list \<Rightarrow> string list \<Rightarrow> py_exception + row list" where
  "no_rows cols records = Inl ParserError"

definition statuses_get :: "string \<Rightarrow> py_exception + response" where
  "statuses_get url =
     (if url = ''https://example.org/header.csv''
      then Inr \<lparr>status_code = 200, content = ''Entity,Code,Year,GDP per capita'' @ [CHR 0x0A]\<rparr>
      else if url = ''https://example.org/empty.csv''
      then Inr \<lparr>status_code = 200, content = []\<rparr>
      else if url = ''https://example.org/no-content''
      then Inr \<lparr>status_code = 204, content = []\<rparr>
      else Inl RequestException)"


section \<open>Evaluating the examples\<close>

lemma floor_numeral_divide:
  "\<lfloor>numeral a / numeral b :: rat\<rfloor> = numeral a div numeral b"
  using floor_divide_of_int_eq[of "numeral a" "numeral b", where ?'a = rat] by simp

lemma round_small_numeral:
  "round_small (numeral k) x =
     (if x < 2 ^ 52 then round_small (pred_numeral k) (2 * x) / 2
      else of_int (round_half_even x))"
  by (simp add: numeral_eq_Suc)

lemma round_large_numeral:
  "round_large (numeral k) x =
     (if 2 ^ 53 \<le> x then 2 * round_large (pred_numeral k) (x / 2)
      else of_int (round_half_even x))"
  by (simp add: numeral_eq_Suc)

lemmas float_eval =
  float64_def float64_pos_def float_sum_def round_small_numeral round_large_numeral
  round_half_even_def floor_numeral_divide Let_def

lemmas example_defs =
  example_table_def gdp_row_def country_data_def metric_column_def lower_def lower_char_def
  country_stats_def year_at_def series_max_def series_min_def series_mean_def cell_at_def
  is_text_def isna_def year_max_def latest_rows_def latest_value_def combine_def
  select_cols_def sort_key_of_def float_eval

section \<open>Substrings and the metric column\<close>

lemma startswith_iff: "startswith s p \<longleftrightarrow> (\<exists>post. s = p @ post)"
  by (induction s p rule: startswith.induct) auto

lemma str_in_iff: "str_in sub s \<longleftrightarrow> (\<exists>pre post. s = pre @ sub @ post)"
proof (induction s)
  case Nil
  show ?case by auto
next
  case (Cons c cs)
  have "(\<exists>pre post. c # cs = pre @ sub @ post) \<longleftrightarrow>
        (\<exists>post. c # cs = sub @ post) \<or> (\<exists>pre post. cs = pre @ sub @ post)"
  proof
    assume "\<exists>pre post. c # cs = pre @ sub @ post"
    then obtain pre post where e: "c # cs = pre @ sub @ post" by blast
    show "(\<exists>post. c # cs = sub @ post) \<or> (\<exists>pre post. cs = pre @ sub @ post)"
    proof (cases pre)
      case Nil
      with e show ?thesis by auto
    next
      case (Cons p ps)
      with e have "cs = ps @ sub @ post" by simp
      then show ?thesis by blast
    qed
  next
    assume "(\<exists>post. c # cs = sub @ post) \<or> (\<exists>pre post. cs = pre @ sub @ post)"
    then show "\<exists>pre post. c # cs = pre @ sub @ post"
    proof
      assume "\<exists>post. c # cs = sub @ post"
      then obtain post where "c # cs = [] @ sub @ post" by auto
      then show ?thesis by blast
    next
      assume "\<exists>pre post. cs = pre @ sub @ post"
      then obtain pre post where "c # cs = (c # pre) @ sub @ post" by auto
      then show ?thesis by blast
    qed
  qed
  with Cons show ?case by (simp add: startswith_iff)
qed

lemma filter_first:
  "xs = pre @ c # post \<Longrightarrow> P c \<Longrightarrow> \<forall>x\<in>set pre. \<not> P x \<Longrightarrow> filter P xs = c # filter P post"
  by simp

lemma filter_none: "\<forall>x\<in>set xs. \<not> P x \<Longrightarrow> filter P xs = []"
  by simp

lemma metric_column_match:
  assumes "cols = pre @ c # post" "str_in (lower m) (lower c)"
    "\<forall>x\<in>set pre. \<not> str_in (lower m) (lower x)"
  shows "metric_column cols m = Inr c"
  using assms by (simp add: metric_column_def)

lemma metric_column_fallback:
  assumes "\<forall>x\<in>set cols. \<not> str_in (lower m) (lower x)" "cols = pre @ c # post"
    "c \<notin> {''Entity'', ''Year'', ''Code''}" "set pre \<subseteq> {''Entity'', ''Year'', ''Code''}"
  shows "metric_column cols m = Inr c"
proof -
  have 1: "filter (\<lambda>col. str_in (lower m) (lower col)) cols = []"
    using assms(1) by simp
  have "\<forall>x\<in>set pre. \<not> x \<notin> set [''Entity'', ''Year'', ''Code'']"
    using assms(4) by auto
  then have 2: "filter (\<lambda>col. col \<notin> set [''Entity'', ''Year'', ''Code'']) cols =
      c # filter (\<lambda>col. col \<notin> set [''Entity'', ''Year'', ''Code'']) post"
    using assms(2,3) by (intro filter_first) auto
  show ?thesis unfolding metric_column_def Let_def 1 2 by simp
qed

lemma metric_column_none:
  assumes "\<forall>x\<in>set cols. \<not> str_in (lower m) (lower x) \<and> x \<in> {''Entity'', ''Year'', ''Code''}"
  shows "metric_column cols m = Inl ColumnNotFound"
proof -
  have 1: "filter (\<lambda>col. str_in (lower m) (lower col)) cols = []"
    using assms by simp
  have 2: "filter (\<lambda>col. col \<notin> set [''Entity'', ''Year'', ''Code'']) cols = []"
    using assms by auto
  show ?thesis unfolding metric_column_def Let_def 1 2 by simp
qed

lemma metric_column_error: "metric_column cols m = Inl e \<Longrightarrow> e = ColumnNotFound"
  by (auto simp: metric_column_def Let_def split: list.splits)

lemma compare_with_column_error:
  assumes "''Entity'' \<in> set (columns t)" "''Year'' \<in> set (columns t)"
    "country_data t a \<noteq> []" "country_data t b \<noteq> []"
    "metric_column (columns t) m = Inl e"
  shows "compare_with pol t a b m = Inl ColumnNotFound"
  using assms metric_column_error[OF assms(5)] by (simp add: compare_with_def)

lemma compare_with_metric_col:
  assumes "compare_with pol t a b m = Inr r"
  shows "metric_column (columns t) m = Inr (metric_col r)"
  using assms
  by (auto simp: compare_with_def Let_def split: if_splits sum.splits cell.splits)

lemma example_compare:
  "compare example_table ''Wakanda'' ''Genovia'' ''GDP per capita'' = Inr example_result"
  by (simp add: compare_def compare_with_def example_defs example_result_def)

section \<open>Aggregates\<close>

lemma set_nums: "set (nums cs) = {v. Num v \<in> set cs}"
  by (induction cs rule: nums.induct) auto

lemma nums_no_text:
  "\<not> list_ex is_text cs \<Longrightarrow> map Num (nums cs) = filter (\<lambda>c. \<not> isna c) cs"
  by (induction cs rule: nums.induct) (auto simp: is_text_def isna_def)

lemma fold_max_Max: "fold max xs (x::rat) = Max (set (x # xs))"
  by (simp only: Max.set_eq_fold)

lemma fold_min_Min: "fold min xs (x::rat) = Min (set (x # xs))"
  by (simp only: Min.set_eq_fold)

lemma sum_list_upper: "\<forall>x\<in>set xs. x \<le> (m::rat) \<Longrightarrow> sum_list xs \<le> of_nat (length xs) * m"
  by (induction xs) (auto simp: algebra_simps)

lemma sum_list_lower: "\<forall>x\<in>set xs. (m::rat) \<le> x \<Longrightarrow> of_nat (length xs) * m \<le> sum_list xs"
  by (induction xs) (auto simp: algebra_simps)

lemma mean_between:
  fixes xs :: "rat list"
  assumes "xs \<noteq> []"
  shows "Min (set xs) \<le> sum_list xs / of_nat (length xs)"
    and "sum_list xs / of_nat (length xs) \<le> Max (set xs)"
proof -
  have pos: "(0::rat) < of_nat (length xs)" using assms by simp
  have "of_nat (length xs) * Min (set xs) \<le> sum_list xs"
    by (rule sum_list_lower) simp
  then show "Min (set xs) \<le> sum_list xs / of_nat (length xs)"
    using pos by (simp add: pos_le_divide_eq mult.commute)
  have "sum_list xs \<le> of_nat (length xs) * Max (set xs)"
    by (rule sum_list_upper) simp
  then show "sum_list xs / of_nat (length xs) \<le> Max (set xs)"
    using pos by (simp add: pos_divide_le_eq mult.commute)
qed

section \<open>Rounding to a double is monotone\<close>

lemma round_half_even_bounds: "\<lfloor>x\<rfloor> \<le> round_half_even x \<and> round_half_even x \<le> \<lfloor>x\<rfloor> + 1"
  by (simp add: round_half_even_def Let_def)

lemma round_half_even_of_int: "round_half_even (of_int n) = n"
  by (simp add: round_half_even_def Let_def)

lemma round_half_even_mono:
  assumes "x \<le> y"
  shows "round_half_even x \<le> round_half_even y"
proof (cases "\<lfloor>x\<rfloor> < \<lfloor>y\<rfloor>")
  case True
  have "round_half_even x \<le> \<lfloor>x\<rfloor> + 1" using round_half_even_bounds by blast
  also have "\<dots> \<le> \<lfloor>y\<rfloor>" using True by simp
  also have "\<dots> \<le> round_half_even y" using round_half_even_bounds by blast
  finally show ?thesis .
next
  case False
  moreover have "\<lfloor>x\<rfloor> \<le> \<lfloor>y\<rfloor>" using assms by (rule floor_mono)
  ultimately have e: "\<lfloor>y\<rfloor> = \<lfloor>x\<rfloor>" by simp
  have d: "x - of_int \<lfloor>x\<rfloor> \<le> y - of_int \<lfloor>x\<rfloor>" using assms by simp
  show ?thesis
    unfolding round_half_even_def Let_def e using d by auto
qed

lemma round_half_even_le: "x \<le> of_int n \<Longrightarrow> round_half_even x \<le> n"
  using round_half_even_mono[of x "of_int n"] by (simp add: round_half_even_of_int)

lemma round_half_even_ge: "of_int n \<le> x \<Longrightarrow> n \<le> round_half_even x"
  using round_half_even_mono[of "of_int n" x] by (simp add: round_half_even_of_int)

lemma round_half_even_ge_52: "2 ^ 52 \<le> x \<Longrightarrow> (2 ^ 52 :: rat) \<le> of_int (round_half_even x)"
proof -
  assume "2 ^ 52 \<le> x"
  then have "of_int (2 ^ 52) \<le> x" by simp
  then have "(2 ^ 52 :: int) \<le> round_half_even x" by (rule round_half_even_ge)
  then have "(of_int (2 ^ 52) :: rat) \<le> of_int (round_half_even x)" by (simp only: of_int_le_iff)
  then show ?thesis by simp
qed

lemma round_half_even_le_53: "x \<le> 2 ^ 53 \<Longrightarrow> (of_int (round_half_even x) :: rat) \<le> 2 ^ 53"
proof -
  assume "x \<le> 2 ^ 53"
  then have "x \<le> of_int (2 ^ 53)" by simp
  then have "round_half_even x \<le> (2 ^ 53 :: int)" by (rule round_half_even_le)
  then have "(of_int (round_half_even x) :: rat) \<le> of_int (2 ^ 53)" by (simp only: of_int_le_iff)
  then show ?thesis by simp
qed

lemma round_small_upper: "x \<le> of_int n \<Longrightarrow> round_small k x \<le> of_int n"
proof (induction k arbitrary: x n)
  case 0
  then show ?case using round_half_even_le[of x n] by simp
next
  case (Suc k)
  show ?case
  proof (cases "x < 2 ^ 52")
    case True
    have "2 * x \<le> of_int (2 * n)" using Suc.prems by simp
    then have "round_small k (2 * x) \<le> of_int (2 * n)" by (rule Suc.IH)
    then show ?thesis using True by simp
  next
    case False
    then show ?thesis using round_half_even_le[OF Suc.prems] by simp
  qed
qed

lemma round_small_lower: "of_int n \<le> x \<Longrightarrow> of_int n \<le> round_small k x"
proof (induction k arbitrary: x n)
  case 0
  then show ?case using round_half_even_ge[of n x] by simp
next
  case (Suc k)
  show ?case
  proof (cases "x < 2 ^ 52")
    case True
    have "of_int (2 * n) \<le> 2 * x" using Suc.prems by simp
    then have "of_int (2 * n) \<le> round_small k (2 * x)" by (rule Suc.IH)
    then show ?thesis using True by simp
  next
    case False
    then show ?thesis using round_half_even_ge[OF Suc.prems] by simp
  qed
qed

lemma round_small_mono: "x \<le> y \<Longrightarrow> round_small k x \<le> round_small k y"
proof (induction k arbitrary: x y)
  case 0
  then show ?case by (simp add: round_half_even_mono)
next
  case (Suc k)
  show ?case
  proof (cases "y < 2 ^ 52")
    case True
    then have "x < 2 ^ 52" using Suc.prems by simp
    moreover have "round_small k (2 * x) \<le> round_small k (2 * y)"
      using Suc.prems by (intro Suc.IH) simp
    ultimately show ?thesis using True by simp
  next
    case False
    show ?thesis
    proof (cases "x < 2 ^ 52")
      case True
      have "x \<le> of_int (2 ^ 52)" using True by simp
      then have "round_small (Suc k) x \<le> of_int (2 ^ 52)" by (rule round_small_upper)
      moreover have "of_int (2 ^ 52) \<le> y" using False by simp
      then have "of_int (2 ^ 52) \<le> round_small (Suc k) y" by (rule round_small_lower)
      ultimately show ?thesis by (rule order_trans)
    next
      case False
      with \<open>\<not> y < 2 ^ 52\<close> show ?thesis
        using round_half_even_mono[OF Suc.prems] by simp
    qed
  qed
qed

lemma round_large_lower: "2 ^ 52 \<le> x \<Longrightarrow> 2 ^ 52 \<le> round_large k x"
proof (induction k arbitrary: x)
  case 0
  then show ?case using round_half_even_ge_52[of x] by simp
next
  case (Suc k)
  show ?case
  proof (cases "2 ^ 53 \<le> x")
    case True
    then have "2 ^ 52 \<le> x / 2" by simp
    then have "2 ^ 52 \<le> round_large k (x / 2)" by (rule Suc.IH)
    then show ?thesis using True by simp
  next
    case False
    then show ?thesis using round_half_even_ge_52[OF Suc.prems] by simp
  qed
qed

lemma round_large_mono: "x \<le> y \<Longrightarrow> round_large k x \<le> round_large k y"
proof (induction k arbitrary: x y)
  case 0
  then show ?case by (simp add: round_half_even_mono)
next
  case (Suc k)
  show ?case
  proof (cases "2 ^ 53 \<le> x")
    case True
    then have "2 ^ 53 \<le> y" using Suc.prems by simp
    moreover have "round_large k (x / 2) \<le> round_large k (y / 2)"
      using Suc.prems by (intro Suc.IH) simp
    ultimately show ?thesis using True by simp
  next
    case False
    show ?thesis
    proof (cases "2 ^ 53 \<le> y")
      case True
      have a: "(of_int (round_half_even x) :: rat) \<le> 2 ^ 53"
        using False by (intro round_half_even_le_53) simp
      have "2 ^ 52 \<le> y / 2" using True by simp
      then have "2 ^ 52 \<le> round_large k (y / 2)" by (rule round_large_lower)
      then have "2 ^ 53 \<le> 2 * round_large k (y / 2)" by simp
      with a show ?thesis using True False by simp
    next
      case False
      with \<open>\<not> 2 ^ 53 \<le> x\<close> show ?thesis
        using round_half_even_mono[OF Suc.prems] by simp
    qed
  qed
qed

lemma float64_pos_mono: "x \<le> y \<Longrightarrow> float64_pos x \<le> float64_pos y"
proof -
  assume le: "x \<le> y"
  show ?thesis
  proof (cases "y < 2 ^ 52")
    case True
    then have "x < 2 ^ 52" using le by simp
    with True show ?thesis using round_small_mono[OF le] by (simp add: float64_pos_def)
  next
    case False
    show ?thesis
    proof (cases "x < 2 ^ 52")
      case True
      have "x \<le> of_int (2 ^ 52)" using True by simp
      then have "round_small 1074 x \<le> of_int (2 ^ 52)" by (rule round_small_upper)
      moreover have "2 ^ 52 \<le> round_large 971 y" using False by (intro round_large_lower) simp
      ultimately show ?thesis using True False by (simp add: float64_pos_def)
    next
      case False
      with \<open>\<not> y < 2 ^ 52\<close> show ?thesis
        using round_large_mono[OF le] by (simp add: float64_pos_def)
    qed
  qed
qed

lemma float64_pos_nonneg: "0 \<le> x \<Longrightarrow> 0 \<le> float64_pos x"
proof -
  assume "0 \<le> x"
  then have "of_int 0 \<le> x" by simp
  then have "of_int 0 \<le> round_small 1074 x" by (rule round_small_lower)
  moreover have "\<not> x < 2 ^ 52 \<Longrightarrow> 2 ^ 52 \<le> round_large 971 x"
    by (intro round_large_lower) simp
  ultimately show ?thesis by (auto simp: float64_pos_def intro: order_trans[of 0 "2 ^ 52"])
qed

lemma float64_mono: "x \<le> y \<Longrightarrow> float64 x \<le> float64 y"
proof -
  assume le: "x \<le> y"
  show ?thesis
  proof (cases "y < 0")
    case True
    then have "x < 0" using le by simp
    moreover have "float64_pos (- y) \<le> float64_pos (- x)"
      using le by (intro float64_pos_mono) simp
    ultimately show ?thesis using True by (simp add: float64_def)
  next
    case False
    show ?thesis
    proof (cases "x < 0")
      case True
      then have "0 \<le> float64_pos (- x)" by (intro float64_pos_nonneg) simp
      moreover have "0 \<le> float64_pos y" using False by (intro float64_pos_nonneg) simp
      ultimately show ?thesis using True False by (simp add: float64_def)
    next
      case False
      with \<open>\<not> y < 0\<close> show ?thesis using float64_pos_mono[OF le] by (simp add: float64_def)
    qed
  qed
qed

lemma series_values:
  assumes "nums cs \<noteq> []"
  shows "series_max cs = Some (Max (set (nums cs)))"
    and "series_min cs = Some (Min (set (nums cs)))"
    and "series_mean cs = Some (float64 (float_sum (nums cs) / of_nat (length (nums cs))))"
proof -
  obtain x xs where e: "nums cs = x # xs" using assms by (cases "nums cs") auto
  show "series_max cs = Some (Max (set (nums cs)))"
    by (simp only: series_max_def e list.case fold_max_Max)
  show "series_min cs = Some (Min (set (nums cs)))"
    by (simp only: series_min_def e list.case fold_min_Min)
  show "series_mean cs = Some (float64 (float_sum (nums cs) / of_nat (length (nums cs))))"
    by (simp only: series_mean_def e list.case)
qed

lemma country_stats_values:
  assumes nt: "\<not> list_ex is_text (map (\<lambda>r. cell_at r col) rs)"
    and ne: "nums (map (\<lambda>r. cell_at r col) rs) \<noteq> []"
  shows "\<exists>s. country_stats pol rs col = Inr s \<and>
           stat_max s = Some (Max (set (nums (map (\<lambda>r. cell_at r col) rs)))) \<and>
           stat_min s = Some (Min (set (nums (map (\<lambda>r. cell_at r col) rs)))) \<and>
           stat_mean s = Some (float64 (float_sum (nums (map (\<lambda>r. cell_at r col) rs)) /
                               of_nat (length (nums (map (\<lambda>r. cell_at r col) rs)))))"
  using nt series_values[OF ne]
  by (simp add: country_stats_def year_at_def Let_def)

lemma nums_empty_iff:
  "\<not> list_ex is_text cs \<Longrightarrow> nums cs = [] \<longleftrightarrow> (\<forall>c\<in>set cs. c = NA)"
  by (induction cs rule: nums.induct) (auto simp: is_text_def)

lemma country_stats_numeric:
  assumes "\<not> list_ex is_text (map (\<lambda>r. cell_at r col) rs)"
  shows "country_stats pol rs col =
     (if nums (map (\<lambda>r. cell_at r col) rs) = []
      then (case pol of
              ReturnsNA \<Rightarrow> Inr \<lparr>stat_max = None, stat_min = None, stat_mean = None,
                                max_year = None, min_year = None\<rparr>
            | Raises \<Rightarrow> Inl ValueError)
      else Inr \<lparr>stat_max = series_max (map (\<lambda>r. cell_at r col) rs),
                stat_min = series_min (map (\<lambda>r. cell_at r col) rs),
                stat_mean = series_mean (map (\<lambda>r. cell_at r col) rs),
                max_year = map_option Year (find (\<lambda>r. Some (cell_at r col) =
                   map_option Num (series_max (map (\<lambda>r. cell_at r col) rs))) rs),
                min_year = map_option Year (find (\<lambda>r. Some (cell_at r col) =
                   map_option Num (series_min (map (\<lambda>r. cell_at r col) rs))) rs)\<rparr>)"
proof (cases "nums (map (\<lambda>r. cell_at r col) rs)")
  case Nil
  then show ?thesis using assms
    by (cases pol) (simp_all add: country_stats_def year_at_def series_max_def series_min_def
        series_mean_def)
next
  case (Cons x xs)
  then show ?thesis using assms
    by (simp add: country_stats_def year_at_def series_max_def series_min_def series_mean_def)
qed

text \<open>Integers up to \<open>2 ^ 53\<close> are doubles, and sums of them within this bound are exact.\<close>

lemma round_small_of_int: "round_small n (of_int k) = of_int k"
proof (induction n arbitrary: k)
  case 0
  show ?case by (simp add: round_half_even_of_int)
next
  case (Suc n)
  have "round_small n (2 * of_int k) = of_int (2 * k)"
    using Suc.IH[of "2 * k"] by simp
  then show ?case by (simp add: round_half_even_of_int)
qed

lemma round_large_of_int:
  assumes "of_int k \<le> (2 ^ 53 :: rat)"
  shows "round_large n (of_int k) = of_int k"
proof (cases n)
  case 0
  then show ?thesis by (simp add: round_half_even_of_int)
next
  case (Suc j)
  show ?thesis
  proof (cases "(2 ^ 53 :: rat) \<le> of_int k")
    case False
    then show ?thesis using Suc by (simp add: round_half_even_of_int)
  next
    case True
    with assms have e: "(of_int k :: rat) = 2 ^ 53" by simp
    have h: "round_large j (2 ^ 52) = 2 ^ 52"
    proof (cases j)
      case 0
      have "round_large 0 (of_int (2 ^ 52)) = of_int (2 ^ 52)"
        by (simp only: round_large.simps round_half_even_of_int)
      then show ?thesis using 0 by simp
    next
      case (Suc i)
      have "round_large (Suc i) (of_int (2 ^ 52)) = of_int (2 ^ 52)"
        by (simp add: round_half_even_of_int del: of_int_power of_int_numeral)
      then show ?thesis using Suc by simp
    qed
    show ?thesis unfolding e Suc using h by simp
  qed
qed

lemma float64_pos_of_int:
  assumes "of_int k \<le> (2 ^ 53 :: rat)"
  shows "float64_pos (of_int k) = of_int k"
  using round_large_of_int[OF assms] by (simp add: float64_pos_def round_small_of_int)

lemma float64_of_int:
  assumes "\<bar>k\<bar> \<le> 2 ^ 53"
  shows "float64 (of_int k) = of_int k"
proof -
  have a: "(of_int \<bar>k\<bar> :: rat) \<le> of_int (2 ^ 53)"
    using assms by (simp only: of_int_le_iff)
  show ?thesis
  proof (cases "k < 0")
    case True
    then have "(of_int (- k) :: rat) \<le> 2 ^ 53" using a by simp
    from float64_pos_of_int[OF this] show ?thesis using True by (simp add: float64_def)
  next
    case False
    then have "(of_int k :: rat) \<le> 2 ^ 53" using a by simp
    from float64_pos_of_int[OF this] show ?thesis using False by (simp add: float64_def)
  qed
qed

lemma fold_float_add_ints:
  assumes "\<bar>k0\<bar> + (\<Sum>k\<leftarrow>ks. \<bar>k\<bar>) \<le> 2 ^ 53"
  shows "fold (\<lambda>x s. float64 (s + float64 x)) (map of_int ks) (of_int k0) =
           of_int (k0 + sum_list ks)"
  using assms
proof (induction ks arbitrary: k0)
  case Nil
  show ?case by simp
next
  case (Cons k ks)
  have nn: "0 \<le> (\<Sum>k\<leftarrow>ks. \<bar>k\<bar>)" by (rule sum_list_nonneg) auto
  have k: "\<bar>k\<bar> \<le> 2 ^ 53" using Cons.prems nn by simp
  have s: "\<bar>k0 + k\<bar> \<le> 2 ^ 53" using Cons.prems nn by simp
  have r: "\<bar>k0 + k\<bar> + (\<Sum>k\<leftarrow>ks. \<bar>k\<bar>) \<le> 2 ^ 53" using Cons.prems by simp
  have "float64 (of_int k0 + float64 (of_int k)) = of_int (k0 + k)"
    using float64_of_int[OF k] float64_of_int[OF s] by simp
  then show ?case
    using Cons.IH[OF r] by (simp add: add.assoc)
qed

lemma of_int_sum_list_rat: "(of_int (sum_list ks) :: rat) = sum_list (map of_int ks)"
  by (induction ks) auto

lemma float_sum_ints:
  assumes "(\<Sum>k\<leftarrow>ks. \<bar>k\<bar>) \<le> 2 ^ 53"
  shows "float_sum (map of_int ks) = sum_list (map of_int ks)"
    and "\<forall>v\<in>set (map of_int ks :: rat list). float64 v = v"
proof -
  have "fold (\<lambda>x s. float64 (s + float64 x)) (map of_int ks) (of_int 0) = of_int (0 + sum_list ks)"
    using assms by (intro fold_float_add_ints) simp
  then show "float_sum (map of_int ks) = sum_list (map of_int ks)"
    by (simp add: float_sum_def of_int_sum_list_rat)
  have "\<bar>k\<bar> \<le> 2 ^ 53" if "k \<in> set ks" for k
  proof -
    have "\<bar>k\<bar> \<le> (\<Sum>k\<leftarrow>ks. \<bar>k\<bar>)"
      using that by (intro member_le_sum_list) auto
    with assms show ?thesis by simp
  qed
  then show "\<forall>v\<in>set (map of_int ks :: rat list). float64 v = v"
    by (auto simp: float64_of_int)
qed

lemma rounded_mean_between:
  fixes vs :: "rat list"
  assumes ne: "vs \<noteq> []"
    and rep: "\<forall>v\<in>set vs. float64 v = v"
    and exact: "float_sum vs = sum_list vs"
  shows "Min (set vs) \<le> float64 (float_sum vs / of_nat (length vs))"
    and "float64 (float_sum vs / of_nat (length vs)) \<le> Max (set vs)"
proof -
  have mn: "float64 (Min (set vs)) = Min (set vs)"
    using rep ne by (intro bspec[OF rep] Min_in) simp_all
  have mx: "float64 (Max (set vs)) = Max (set vs)"
    using rep ne by (intro bspec[OF rep] Max_in) simp_all
  have "float64 (Min (set vs)) \<le> float64 (sum_list vs / of_nat (length vs))"
    by (intro float64_mono mean_between(1)[OF ne])
  then show "Min (set vs) \<le> float64 (float_sum vs / of_nat (length vs))"
    by (simp only: mn exact)
  have "float64 (sum_list vs / of_nat (length vs)) \<le> float64 (Max (set vs))"
    by (intro float64_mono mean_between(2)[OF ne])
  then show "float64 (float_sum vs / of_nat (length vs)) \<le> Max (set vs)"
    by (simp only: mx exact)
qed

lemma stats_of_values:
  assumes nt: "\<not> list_ex is_text (map (\<lambda>r. cell_at r col) rs)"
    and ex: "\<exists>r\<in>set rs. \<exists>v. cell_at r col = Num v"
    and vs: "vs = nums (map (\<lambda>r. cell_at r col) rs)"
  shows "\<exists>s mx mn. country_stats pol rs col = Inr s \<and>
           stat_max s = Some mx \<and> stat_min s = Some mn \<and>
           stat_mean s = Some (float64 (float_sum vs / of_nat (length vs))) \<and>
           mx = Max {v. \<exists>r\<in>set rs. cell_at r col = Num v} \<and>
           mn = Min {v. \<exists>r\<in>set rs. cell_at r col = Num v} \<and>
           map Num vs = filter (\<lambda>c. \<not> isna c) (map (\<lambda>r. cell_at r col) rs) \<and>
           mn \<le> mx \<and>
           mn \<le> sum_list vs / of_nat (length vs) \<and> sum_list vs / of_nat (length vs) \<le> mx \<and>
           ((\<forall>v\<in>set vs. float64 v = v) \<and> float_sum vs = sum_list vs \<longrightarrow>
              mn \<le> float64 (float_sum vs / of_nat (length vs)) \<and>
              float64 (float_sum vs / of_nat (length vs)) \<le> mx) \<and>
           ((\<exists>ks. vs = map of_int ks \<and> (\<Sum>k\<leftarrow>ks. \<bar>k\<bar>) \<le> 2 ^ 53) \<longrightarrow>
              mn \<le> float64 (float_sum vs / of_nat (length vs)) \<and>
              float64 (float_sum vs / of_nat (length vs)) \<le> mx)"
proof -
  let ?cs = "map (\<lambda>r. cell_at r col) rs"
  have s: "set vs = {v. \<exists>r\<in>set rs. cell_at r col = Num v}"
    unfolding vs by (force simp: set_nums image_iff)
  have ne: "vs \<noteq> []"
  proof
    assume "vs = []"
    then have "set vs = {}" by simp
    with s ex show False by auto
  qed
  have ne': "nums ?cs \<noteq> []" using ne vs by simp
  from country_stats_values[OF nt ne', of pol]
  obtain st where st: "country_stats pol rs col = Inr st"
    "stat_max st = Some (Max (set vs))" "stat_min st = Some (Min (set vs))"
    "stat_mean st = Some (float64 (float_sum vs / of_nat (length vs)))"
    unfolding vs by blast
  have mm: "Min (set vs) \<le> Max (set vs)"
    using ne by (intro Min_le Max_in) simp_all
  have r: "(\<forall>v\<in>set vs. float64 v = v) \<and> float_sum vs = sum_list vs \<longrightarrow>
              Min (set vs) \<le> float64 (float_sum vs / of_nat (length vs)) \<and>
              float64 (float_sum vs / of_nat (length vs)) \<le> Max (set vs)"
    using rounded_mean_between[OF ne] by blast
  have ri: "(\<exists>ks. vs = map of_int ks \<and> (\<Sum>k\<leftarrow>ks. \<bar>k\<bar>) \<le> 2 ^ 53) \<longrightarrow>
              Min (set vs) \<le> float64 (float_sum vs / of_nat (length vs)) \<and>
              float64 (float_sum vs / of_nat (length vs)) \<le> Max (set vs)"
  proof
    assume "\<exists>ks. vs = map of_int ks \<and> (\<Sum>k\<leftarrow>ks. \<bar>k\<bar>) \<le> 2 ^ 53"
    then obtain ks where ks: "vs = map of_int ks" "(\<Sum>k\<leftarrow>ks. \<bar>k\<bar>) \<le> 2 ^ 53" by blast
    have "(\<forall>v\<in>set vs. float64 v = v) \<and> float_sum vs = sum_list vs"
      unfolding ks(1) using float_sum_ints[OF ks(2)] by blast
    with r show "Min (set vs) \<le> float64 (float_sum vs / of_nat (length vs)) \<and>
              float64 (float_sum vs / of_nat (length vs)) \<le> Max (set vs)" by blast
  qed
  have f: "map Num vs = filter (\<lambda>c. \<not> isna c) ?cs"
    unfolding vs by (rule nums_no_text[OF nt])
  have "country_stats pol rs col = Inr st \<and>
           stat_max st = Some (Max (set vs)) \<and> stat_min st = Some (Min (set vs)) \<and>
           stat_mean st = Some (float64 (float_sum vs / of_nat (length vs))) \<and>
           Max (set vs) = Max {v. \<exists>r\<in>set rs. cell_at r col = Num v} \<and>
           Min (set vs) = Min {v. \<exists>r\<in>set rs. cell_at r col = Num v} \<and>
           map Num vs = filter (\<lambda>c. \<not> isna c) ?cs \<and>
           Min (set vs) \<le> Max (set vs) \<and>
           Min (set vs) \<le> sum_list vs / of_nat (length vs) \<and>
           sum_list vs / of_nat (length vs) \<le> Max (set vs) \<and>
           ((\<forall>v\<in>set vs. float64 v = v) \<and> float_sum vs = sum_list vs \<longrightarrow>
              Min (set vs) \<le> float64 (float_sum vs / of_nat (length vs)) \<and>
              float64 (float_sum vs / of_nat (length vs)) \<le> Max (set vs)) \<and>
           ((\<exists>ks. vs = map of_int ks \<and> (\<Sum>k\<leftarrow>ks. \<bar>k\<bar>) \<le> 2 ^ 53) \<longrightarrow>
              Min (set vs) \<le> float64 (float_sum vs / of_nat (length vs)) \<and>
              float64 (float_sum vs / of_nat (length vs)) \<le> Max (set vs))"
    using st mm mean_between[OF ne] r ri f s by (intro conjI) simp_all
  then show ?thesis by (intro exI)
qed

lemma all_NA_nums:
  assumes "\<forall>r\<in>set rs. cell_at r col = NA"
  shows "nums (map (\<lambda>r. cell_at r col) rs) = []"
    and "\<not> list_ex is_text (map (\<lambda>r. cell_at r col) rs)"
proof -
  show nt: "\<not> list_ex is_text (map (\<lambda>r. cell_at r col) rs)"
    using assms by (auto simp: list_ex_iff is_text_def)
  show "nums (map (\<lambda>r. cell_at r col) rs) = []"
    using assms by (simp add: nums_empty_iff[OF nt])
qed

lemma all_NA_stats:
  assumes "\<forall>r\<in>set rs. cell_at r col = NA"
  shows "country_stats ReturnsNA rs col =
           Inr \<lparr>stat_max = None, stat_min = None, stat_mean = None,
                max_year = None, min_year = None\<rparr>"
    and "country_stats Raises rs col = Inl ValueError"
  using country_stats_numeric[OF all_NA_nums(2)[OF assms]] all_NA_nums(1)[OF assms]
  by simp_all

section \<open>The latest row\<close>

lemma year_max_Max: "rs \<noteq> [] \<Longrightarrow> year_max rs = Some (Max (Year ` set rs))"
proof (cases rs)
  case Nil
  assume "rs \<noteq> []"
  with Nil show ?thesis by simp
next
  case (Cons r rest)
  have "fold max (map Year rest) (Year r) = Max (set (Year r # map Year rest))"
    by (simp only: Max.set_eq_fold)
  then show ?thesis by (simp add: year_max_def Cons)
qed

lemma first_latest:
  assumes "rs = p @ r # q" "\<forall>x\<in>set rs. Year x \<le> Year r" "\<forall>x\<in>set p. Year x < Year r"
  shows "year_max rs = Some (Year r)" and "latest_value rs col = cell_at r col"
proof -
  have ne: "rs \<noteq> []" using assms(1) by simp
  have "Max (Year ` set rs) = Year r"
    using assms(1,2) by (intro Max_eqI) auto
  then show ym: "year_max rs = Some (Year r)"
    using year_max_Max[OF ne] by simp
  have "filter (\<lambda>x. Year x = Year r) p = []"
    using assms(3) by (auto simp: filter_empty_conv)
  then have "latest_rows rs = r # filter (\<lambda>x. Year x = Year r) q"
    unfolding latest_rows_def ym by (simp add: assms(1))
  then show "latest_value rs col = cell_at r col"
    by (simp add: latest_value_def)
qed

lemma first_latest_exists:
  assumes "rs \<noteq> []"
  shows "\<exists>p r q. rs = p @ r # q \<and> (\<forall>x\<in>set rs. Year x \<le> Year r) \<and> (\<forall>x\<in>set p. Year x < Year r)"
proof -
  define M where "M = Max (Year ` set rs)"
  have "M \<in> Year ` set rs" unfolding M_def using assms by (intro Max_in) auto
  then have ex: "\<exists>x\<in>set rs. Year x = M" by auto
  have le: "\<forall>x\<in>set rs. Year x \<le> M" unfolding M_def by simp
  from split_list_first_prop[OF ex]
  obtain p r q where d: "rs = p @ r # q" "Year r = M" "\<forall>x\<in>set p. Year x \<noteq> M"
    by blast
  have "\<forall>x\<in>set p. Year x < Year r"
  proof
    fix x assume "x \<in> set p"
    then have "Year x \<noteq> M" "Year x \<le> M" using d(1,3) le by auto
    then show "Year x < Year r" using d(2) by simp
  qed
  moreover have "\<forall>x\<in>set rs. Year x \<le> Year r" using le d(2) by simp
  ultimately have "rs = p @ r # q \<and> (\<forall>x\<in>set rs. Year x \<le> Year r) \<and> (\<forall>x\<in>set p. Year x < Year r)"
    using d(1) by simp
  then show ?thesis by (intro exI)
qed

lemma latest_value_mem:
  assumes "latest_value rs col = Num v"
  shows "\<exists>r\<in>set rs. cell_at r col = Num v"
proof (cases "latest_rows rs")
  case Nil
  with assms show ?thesis by (simp add: latest_value_def)
next
  case (Cons r rest)
  then have "r \<in> set (latest_rows rs)" by simp
  then have "r \<in> set rs" by (simp add: latest_rows_def)
  moreover have "cell_at r col = Num v" using assms Cons by (simp add: latest_value_def)
  ultimately show ?thesis by blast
qed

lemma latest_value_all_NA:
  assumes "\<forall>r\<in>set rs. cell_at r col = NA"
  shows "latest_value rs col = NA"
proof (cases "latest_rows rs")
  case Nil
  then show ?thesis by (simp add: latest_value_def)
next
  case (Cons r rest)
  then have "r \<in> set (latest_rows rs)" by simp
  then have "r \<in> set rs" by (simp add: latest_rows_def)
  then show ?thesis using assms Cons by (simp add: latest_value_def)
qed

section \<open>The combined rows\<close>

lemma sorted_combine:
  "sorted_wrt (\<lambda>x y. fst x < fst y \<or> (fst x = fst y \<and> fst (snd x) \<le> fst (snd y)))
     (combine as bs col)"
proof -
  have "sorted (map sort_key_of (combine as bs col))"
    unfolding combine_def by (rule sorted_sort_key)
  then have "sorted_wrt (\<lambda>x y. sort_key_of x \<le> sort_key_of y) (combine as bs col)"
    by (simp add: sorted_map)
  moreover have "sort_key_of x \<le> sort_key_of y \<longleftrightarrow>
      fst x < fst y \<or> (fst x = fst y \<and> fst (snd x) \<le> fst (snd y))" for x y :: combined_row
    by (auto simp: sort_key_of_def less_eq_prod_def)
  ultimately show ?thesis by simp
qed

lemma mset_combine:
  "mset (combine as bs col) = mset (map (select_cols col) as) + mset (map (select_cols col) bs)"
  by (simp add: combine_def)

lemma length_combine: "length (combine as bs col) = length as + length bs"
  by (simp add: combine_def)

section \<open>The steps of a comparison\<close>

lemma compare_with_reached:
  assumes "''Entity'' \<in> set (columns t)" "''Year'' \<in> set (columns t)"
    "country_data t a \<noteq> []" "country_data t b \<noteq> []"
    "metric_column (columns t) m = Inr col"
    "country_stats pol (country_data t a) col = Inr sa"
    "country_stats pol (country_data t b) col = Inr sb"
  shows "compare_with pol t a b m =
     (if isna (latest_value (country_data t a) col) \<or> isna (latest_value (country_data t b) col)
      then Inl MissingCurrentValue
      else case (latest_value (country_data t a) col, latest_value (country_data t b) col) of
             (Num x, Num y) \<Rightarrow>
               if col = ''Entity'' \<or> col = ''Year'' then Inl (Unhandled ValueError)
               else Inr \<lparr>metric_col = col,
                         latest_year_a = year_max (country_data t a),
                         latest_year_b = year_max (country_data t b),
                         value_a = x, value_b = y, delta = y - x,
                         country_a_stats = sa, country_b_stats = sb,
                         combined_data = combine (country_data t a) (country_data t b) col\<rparr>
           | _ \<Rightarrow> Inl (Unhandled ValueError))"
  using assms by (simp add: compare_with_def Let_def)

lemma compare_with_InrD:
  assumes ok: "compare_with pol t a b m = Inr r"
  shows "''Entity'' \<in> set (columns t) \<and> ''Year'' \<in> set (columns t) \<and>
    country_data t a \<noteq> [] \<and> country_data t b \<noteq> [] \<and>
    metric_column (columns t) m = Inr (metric_col r) \<and>
    country_stats pol (country_data t a) (metric_col r) = Inr (country_a_stats r) \<and>
    country_stats pol (country_data t b) (metric_col r) = Inr (country_b_stats r) \<and>
    latest_value (country_data t a) (metric_col r) = Num (value_a r) \<and>
    latest_value (country_data t b) (metric_col r) = Num (value_b r) \<and>
    latest_year_a r = year_max (country_data t a) \<and>
    latest_year_b r = year_max (country_data t b) \<and>
    delta r = value_b r - value_a r \<and>
    combined_data r = combine (country_data t a) (country_data t b) (metric_col r) \<and>
    metric_col r \<noteq> ''Entity'' \<and> metric_col r \<noteq> ''Year''"
proof -
  have c: "''Entity'' \<in> set (columns t)" "''Year'' \<in> set (columns t)"
  proof -
    have "\<not> (''Entity'' \<notin> set (columns t) \<or> ''Year'' \<notin> set (columns t))"
    proof
      assume "''Entity'' \<notin> set (columns t) \<or> ''Year'' \<notin> set (columns t)"
      then have "compare_with pol t a b m = Inl InvalidFormat"
        by (simp add: compare_with_def)
      with ok show False by simp
    qed
    then show "''Entity'' \<in> set (columns t)" "''Year'' \<in> set (columns t)" by simp_all
  qed
  have na: "country_data t a \<noteq> []"
  proof
    assume "country_data t a = []"
    then have "compare_with pol t a b m = Inl (NoDataForCountry a)"
      using c by (simp add: compare_with_def)
    with ok show False by simp
  qed
  have nb: "country_data t b \<noteq> []"
  proof
    assume "country_data t b = []"
    then have "compare_with pol t a b m = Inl (NoDataForCountry b)"
      using c na by (simp add: compare_with_def)
    with ok show False by simp
  qed
  obtain col where col: "metric_column (columns t) m = Inr col"
    using ok c na nb by (cases "metric_column (columns t) m") (simp_all add: compare_with_def)
  obtain sa where sa: "country_stats pol (country_data t a) col = Inr sa"
    using ok c na nb col
    by (cases "country_stats pol (country_data t a) col") (simp_all add: compare_with_def)
  obtain sb where sb: "country_stats pol (country_data t b) col = Inr sb"
    using ok c na nb col sa
    by (cases "country_stats pol (country_data t b) col") (simp_all add: compare_with_def)
  note eq = compare_with_reached[OF c na nb col sa sb]
  have "\<exists>x y. latest_value (country_data t a) col = Num x \<and>
               latest_value (country_data t b) col = Num y"
    using ok unfolding eq
    by (cases "latest_value (country_data t a) col"; cases "latest_value (country_data t b) col")
       (simp_all add: isna_def)
  then obtain x y where x: "latest_value (country_data t a) col = Num x"
    and y: "latest_value (country_data t b) col = Num y" by blast
  have ne: "col \<noteq> ''Entity''" "col \<noteq> ''Year''"
    using ok unfolding eq x y by (auto simp: isna_def split: if_splits)
  have r: "r = \<lparr>metric_col = col,
                 latest_year_a = year_max (country_data t a),
                 latest_year_b = year_max (country_data t b),
                 value_a = x, value_b = y, delta = y - x,
                 country_a_stats = sa, country_b_stats = sb,
                 combined_data = combine (country_data t a) (country_data t b) col\<rparr>"
    using ok ne unfolding eq x y by (simp add: isna_def)
  show ?thesis
    using c na nb col sa sb x y ne by (simp add: r)
qed

lemma country_stats_no_text:
  "country_stats pol rs col = Inr s \<Longrightarrow> \<not> list_ex is_text (map (\<lambda>r. cell_at r col) rs)"
  by (auto simp: country_stats_def Let_def split: if_splits)

lemma compare_with_stats_raise:
  assumes "''Entity'' \<in> set (columns t)" "''Year'' \<in> set (columns t)"
    "country_data t a \<noteq> []" "country_data t b \<noteq> []"
    "metric_column (columns t) m = Inr col"
  shows "country_stats pol (country_data t a) col = Inl e \<Longrightarrow>
           compare_with pol t a b m = Inl (Unhandled e)"
    and "country_stats pol (country_data t a) col = Inr sa \<Longrightarrow>
         country_stats pol (country_data t b) col = Inl e \<Longrightarrow>
           compare_with pol t a b m = Inl (Unhandled e)"
  using assms by (simp_all add: compare_with_def)

section \<open>The example tables, evaluated\<close>

lemma gap_compare:
  "compare_with pol gap_table ''Wakanda'' ''Genovia'' ''GDP per capita'' = Inr gap_result"
  by (cases pol) (simp_all add: compare_with_def example_defs gap_table_def gap_result_def)

lemma gap_claimed:
  "claimed_combined gap_table ''Wakanda'' ''Genovia'' ''GDP per capita'' =
     [(''Genovia'', 2005, Num 50), (''Genovia'', 2015, Num 80),
      (''Wakanda'', 2000, Num 100), (''Wakanda'', 2020, Num 150)]"
  by (simp add: claimed_combined_def example_defs gap_table_def)

lemma stale_rows:
  "country_data stale_table ''Wakanda'' =
     [gdp_row ''Wakanda'' 2000 (Num 100), gdp_row ''Wakanda'' 2010 (Num 200)] @
     gdp_row ''Wakanda'' 2020 NA # []"
  "country_data stale_table ''Genovia'' =
     [gdp_row ''Genovia'' 2005 (Num 50)] @ gdp_row ''Genovia'' 2015 (Num 80) # []"
  by (simp_all add: stale_table_def country_data_def gdp_row_def)

lemma example_rows:
  "country_data example_table ''Wakanda'' =
     [gdp_row ''Wakanda'' 2000 (Num 100), gdp_row ''Wakanda'' 2010 (Num 200)] @
     gdp_row ''Wakanda'' 2020 (Num 150) # []"
  "country_data example_table ''Genovia'' =
     [gdp_row ''Genovia'' 2005 (Num 50)] @ gdp_row ''Genovia'' 2015 (Num 80) # []"
  by (simp_all add: example_table_def country_data_def gdp_row_def)

lemma gdp_column:
  "metric_column [''Entity'', ''Code'', ''Year'', ''GDP per capita''] ''GDP per capita'' =
     Inr ''GDP per capita''"
  by (simp add: metric_column_def lower_def lower_char_def)

lemma all_missing_rows:
  "country_data all_missing_table ''Wakanda'' =
     [gdp_row ''Wakanda'' 2000 NA, gdp_row ''Wakanda'' 2010 NA]"
  "country_data all_missing_table ''Genovia'' =
     [gdp_row ''Genovia'' 2005 (Num 50), gdp_row ''Genovia'' 2015 (Num 80)]"
  by (simp_all add: all_missing_table_def country_data_def gdp_row_def)

section \<open>The country loop\<close>






section \<open>The example catalogs, evaluated\<close>





section \<open>The readers\<close>

lemma csv_records_Nil: "csv_records [] = []"
  by (simp add: csv_records_def is_blank_def)

lemma read_cell_not_empty: "read_cell c \<noteq> Str []"
  by (cases c) (auto simp: read_cell_def default_na_values_def)

lemma read_cell_NA_iff:
  "read_cell c = NA \<longleftrightarrow> c = NA \<or> (\<exists>s. c = Str s \<and> s \<in> set default_na_values)"
  by (cases c) (simp_all add: read_cell_def)

lemma read_excel_links:
  "\<forall>e\<in>set (entries (pd_read_excel sheet)). link e \<noteq> Str []"
  by (simp add: pd_read_excel_def read_entry_def read_cell_not_empty)

lemma load_dataset_read:
  assumes "local_file = Some (Inr df) \<or> local_file = None \<and> uploaded_file = Some (Inr df)"
  shows "load_dataset local_file uploaded_file =
           (if ''data link full column names'' \<in> set (cat_columns df)
            then Some (df\<lparr>entries := filter (\<lambda>e. link e \<noteq> NA) (entries df)\<rparr>)
            else None)"
proof -
  have isna: "(\<not> isna c) = (c \<noteq> NA)" for c
    by (cases c) (simp_all add: isna_def)
  show ?thesis
    using assms by (auto simp: load_dataset_def dropna_link_def isna)
qed

section \<open>Claims\<close>

text \<open>
  C1. On the table with entity Wakanda (years 2000, 2010, 2020; values 100, 200, 150) and
  entity Genovia (years 2005, 2015; values 50, 80), comparing Wakanda with Genovia for the
  metric "GDP per capita" gives the current values 150 (year 2020) and 80 (year 2015), the
  statistics max 200 at 2010, min 100 at 2000, mean 150 for Wakanda and max 80 at 2015,
  min 50 at 2005, mean 65 for Genovia, and the delta 80 - 150 = -70. The value column of
  the example is taken to be named after the metric.
\<close>

theorem compare_worked_example:
  "compare example_table ''Wakanda'' ''Genovia'' ''GDP per capita'' =
     Inr \<lparr>metric_col = ''GDP per capita'',
          latest_year_a = Some 2020, latest_year_b = Some 2015,
          value_a = 150, value_b = 80, delta = - 70,
          country_a_stats = \<lparr>stat_max = Some 200, stat_min = Some 100, stat_mean = Some 150,
                              max_year = Some 2010, min_year = Some 2000\<rparr>,
          country_b_stats = \<lparr>stat_max = Some 80, stat_min = Some 50, stat_mean = Some 65,
                              max_year = Some 2015, min_year = Some 2005\<rparr>,
          combined_data = [(''Genovia'', 2005, Num 50), (''Genovia'', 2015, Num 80),
                           (''Wakanda'', 2000, Num 100), (''Wakanda'', 2010, Num 200),
                           (''Wakanda'', 2020, Num 150)]\<rparr>"
  using example_compare by (simp add: example_result_def)

text \<open>
  C3. The value column is the first column, in column order, whose name contains the
  selected metric name as a substring, letter case ignored; when no column does, it is
  the first column that is not one of Entity, Year, Code; when there is no such column
  either, the result is ColumnNotFound. On a table with the Entity and Year columns and
  rows for both countries, that failure is the result of the comparison, and a comparison
  that succeeds reports the column resolved in this way.
\<close>

theorem metric_column_resolution:
  "(str_in (lower m) (lower c) \<longleftrightarrow> (\<exists>u v. lower c = u @ lower m @ v)) \<and>
   (cols = pre @ c # post \<and> str_in (lower m) (lower c) \<and>
      (\<forall>x\<in>set pre. \<not> str_in (lower m) (lower x)) \<longrightarrow> metric_column cols m = Inr c) \<and>
   ((\<forall>x\<in>set cols. \<not> str_in (lower m) (lower x)) \<and> cols = pre @ c # post \<and>
      c \<notin> {''Entity'', ''Year'', ''Code''} \<and> set pre \<subseteq> {''Entity'', ''Year'', ''Code''} \<longrightarrow>
      metric_column cols m = Inr c) \<and>
   ((\<forall>x\<in>set cols. \<not> str_in (lower m) (lower x) \<and> x \<in> {''Entity'', ''Year'', ''Code''}) \<longrightarrow>
      metric_column cols m = Inl ColumnNotFound) \<and>
   (''Entity'' \<in> set (columns t) \<and> ''Year'' \<in> set (columns t) \<and>
      country_data t a \<noteq> [] \<and> country_data t b \<noteq> [] \<and>
      metric_column (columns t) m = Inl ColumnNotFound \<longrightarrow>
      compare t a b m = Inl ColumnNotFound) \<and>
   (compare t a b m = Inr r \<longrightarrow> metric_column (columns t) m = Inr (metric_col r))"
proof (intro conjI impI)
  show "str_in (lower m) (lower c) \<longleftrightarrow> (\<exists>u v. lower c = u @ lower m @ v)"
    by (rule str_in_iff)
next
  assume "cols = pre @ c # post \<and> str_in (lower m) (lower c) \<and>
      (\<forall>x\<in>set pre. \<not> str_in (lower m) (lower x))"
  then show "metric_column cols m = Inr c"
    by (intro metric_column_match[of cols pre c post m]) simp_all
next
  assume "(\<forall>x\<in>set cols. \<not> str_in (lower m) (lower x)) \<and> cols = pre @ c # post \<and>
      c \<notin> {''Entity'', ''Year'', ''Code''} \<and> set pre \<subseteq> {''Entity'', ''Year'', ''Code''}"
  then show "metric_column cols m = Inr c"
    by (intro metric_column_fallback[of cols m pre c post]) simp_all
next
  assume "\<forall>x\<in>set cols. \<not> str_in (lower m) (lower x) \<and> x \<in> {''Entity'', ''Year'', ''Code''}"
  then show "metric_column cols m = Inl ColumnNotFound"
    by (rule metric_column_none)
next
  assume "''Entity'' \<in> set (columns t) \<and> ''Year'' \<in> set (columns t) \<and>
      country_data t a \<noteq> [] \<and> country_data t b \<noteq> [] \<and>
      metric_column (columns t) m = Inl ColumnNotFound"
  then show "compare t a b m = Inl ColumnNotFound"
    unfolding compare_def
    by (intro compare_with_column_error[of t a b m ColumnNotFound]) simp_all
next
  assume "compare t a b m = Inr r"
  then show "metric_column (columns t) m = Inr (metric_col r)"
    unfolding compare_def by (rule compare_with_metric_col)
qed


theorem metric_column_resolution_witness:
  "metric_column [''Entity'', ''Code'', ''Year'', ''Population'', ''GDP per capita (USD)'']
     ''gdp PER capita'' = Inr ''GDP per capita (USD)'' \<and>
   metric_column [''Entity'', ''Code'', ''Year'', ''Population'', ''GDP per capita (USD)'']
     ''Life expectancy'' = Inr ''Population'' \<and>
   metric_column (columns no_value_table) ''Life expectancy'' = Inl ColumnNotFound \<and>
   compare no_value_table ''Wakanda'' ''Genovia'' ''Life expectancy'' = Inl ColumnNotFound \<and>
   metric_column (columns example_table) ''GDP per capita'' = Inr ''GDP per capita''"
proof (intro conjI)
  let ?cols = "[''Entity'', ''Code'', ''Year'', ''Population'', ''GDP per capita (USD)'']"
  show "metric_column ?cols ''gdp PER capita'' = Inr ''GDP per capita (USD)''"
    by (rule metric_column_resolution[where cols = ?cols and pre = "[''Entity'', ''Code'', ''Year'', ''Population'']"
          and c = "''GDP per capita (USD)''" and post = "[]" and m = "''gdp PER capita''",
          THEN conjunct2, THEN conjunct1, THEN mp])
      (simp add: lower_def lower_char_def)
  show "metric_column ?cols ''Life expectancy'' = Inr ''Population''"
    by (rule metric_column_resolution[where cols = ?cols and pre = "[''Entity'', ''Code'', ''Year'']"
          and c = "''Population''" and post = "[''GDP per capita (USD)'']"
          and m = "''Life expectancy''",
          THEN conjunct2, THEN conjunct2, THEN conjunct1, THEN mp])
      (simp add: lower_def lower_char_def)
  show 3: "metric_column (columns no_value_table) ''Life expectancy'' = Inl ColumnNotFound"
    by (rule metric_column_resolution[where cols = "columns no_value_table" and m = "''Life expectancy''",
          THEN conjunct2, THEN conjunct2, THEN conjunct2, THEN conjunct1, THEN mp])
      (simp add: no_value_table_def lower_def lower_char_def)
  show "compare no_value_table ''Wakanda'' ''Genovia'' ''Life expectancy'' = Inl ColumnNotFound"
    by (rule metric_column_resolution[where t = no_value_table and a = "''Wakanda''" and b = "''Genovia''"
          and m = "''Life expectancy''",
          THEN conjunct2, THEN conjunct2, THEN conjunct2, THEN conjunct2, THEN conjunct1, THEN mp])
      (simp add: 3, simp add: no_value_table_def country_data_def)
  show "metric_column (columns example_table) ''GDP per capita'' = Inr ''GDP per capita''"
    using metric_column_resolution[where t = example_table and a = "''Wakanda''" and b = "''Genovia''"
          and m = "''GDP per capita''",
          THEN conjunct2, THEN conjunct2, THEN conjunct2, THEN conjunct2, THEN conjunct2, THEN mp,
          OF example_compare]
    by (simp add: example_result_def)
qed


text \<open>
  C5. On a table that has the Entity and Year columns, a country without any row makes the
  comparison fail with NoDataForCountry naming that country (the first country is tested
  first). Nothing else of the table is looked at before: the result is the same whether a
  value column exists or not, and for either behaviour of the library on empty columns.
\<close>

theorem no_data_for_country:
  assumes "''Entity'' \<in> set (columns t)" "''Year'' \<in> set (columns t)"
  shows "(country_data t a = [] \<longrightarrow> compare_with pol t a b m = Inl (NoDataForCountry a)) \<and>
         (country_data t a \<noteq> [] \<and> country_data t b = [] \<longrightarrow>
            compare_with pol t a b m = Inl (NoDataForCountry b))"
  using assms by (simp add: compare_with_def)


theorem no_data_for_country_witness:
  "compare_with ReturnsNA example_table ''Atlantis'' ''Genovia'' ''GDP per capita'' =
     Inl (NoDataForCountry ''Atlantis'') \<and>
   compare_with Raises no_value_table ''Wakanda'' ''Atlantis'' ''GDP per capita'' =
     Inl (NoDataForCountry ''Atlantis'')"
proof -
  have 1: "''Entity'' \<in> set (columns example_table)" "''Year'' \<in> set (columns example_table)"
    by (simp_all add: example_table_def)
  have 2: "''Entity'' \<in> set (columns no_value_table)" "''Year'' \<in> set (columns no_value_table)"
    by (simp_all add: no_value_table_def)
  have a: "country_data example_table ''Atlantis'' = []"
    by (simp add: example_table_def country_data_def gdp_row_def)
  have b: "country_data no_value_table ''Wakanda'' \<noteq> [] \<and> country_data no_value_table ''Atlantis'' = []"
    by (simp add: no_value_table_def country_data_def)
  show ?thesis
    using no_data_for_country[OF 1, of "''Atlantis''" ReturnsNA "''Genovia''" "''GDP per capita''"]
      no_data_for_country[OF 2, of "''Wakanda''" Raises "''Atlantis''" "''GDP per capita''"] a b
    by blast
qed

text \<open>
  C2, as amended. When the comparison succeeds, the combined rows are all the rows of the
  first country together with all the rows of the second one, each as (entity, year,
  value of the metric column), a row without a value included, sorted by entity and then
  by year in ascending order; their number is the sum of the two countries' row counts.
\<close>

theorem combined_rows_all_sorted:
  assumes "compare_with pol t a b m = Inr r"
  shows "mset (combined_data r) =
           mset (map (select_cols (metric_col r)) (country_data t a)) +
           mset (map (select_cols (metric_col r)) (country_data t b)) \<and>
         sorted_wrt (\<lambda>x y. fst x < fst y \<or> (fst x = fst y \<and> fst (snd x) \<le> fst (snd y)))
           (combined_data r) \<and>
         length (combined_data r) = length (country_data t a) + length (country_data t b)"
proof -
  have c: "combined_data r = combine (country_data t a) (country_data t b) (metric_col r)"
    using compare_with_InrD[OF assms] by simp
  show ?thesis
    unfolding c by (intro conjI mset_combine sorted_combine length_combine)
qed

theorem combined_rows_all_sorted_witness:
  "mset (combined_data gap_result) =
     mset [(''Wakanda'', 2000, Num 100), (''Wakanda'', 2010, NA), (''Wakanda'', 2020, Num 150)] +
     mset [(''Genovia'', 2005, Num 50), (''Genovia'', 2015, Num 80)] \<and>
   length (combined_data gap_result) = 3 + 2"
  using combined_rows_all_sorted[OF gap_compare[of ReturnsNA]]
  by (simp add: gap_result_def gap_table_def country_data_def gdp_row_def select_cols_def cell_at_def)

text \<open>
  C2 as stated fails: on a table in which a row of Wakanda other than the latest has no
  value the comparison succeeds, the row without a value is among the combined rows, and
  there are five of them, not the four rows that have a value.
\<close>

theorem combined_rows_keep_missing:
  "compare gap_table ''Wakanda'' ''Genovia'' ''GDP per capita'' = Inr gap_result \<and>
   combined_data gap_result \<noteq>
     claimed_combined gap_table ''Wakanda'' ''Genovia'' (metric_col gap_result) \<and>
   (''Wakanda'', 2010, NA) \<in> set (combined_data gap_result) \<and>
   length (combined_data gap_result) = 5 \<and>
   length (claimed_combined gap_table ''Wakanda'' ''Genovia'' (metric_col gap_result)) = 4"
proof -
  have m: "metric_col gap_result = ''GDP per capita''" by (simp add: gap_result_def)
  show ?thesis
    unfolding compare_def m gap_claimed using gap_compare[of ReturnsNA]
    by (simp add: gap_result_def)
qed

text \<open>
  C4. Let the metric column be resolved and hold no text in the rows of the two
  countries, and let \<open>ra\<close> and \<open>rb\<close> be the first rows, in row order, that carry the
  maximum year of the first and of the second country. If the value of \<open>ra\<close> or of \<open>rb\<close>
  in the metric column is missing, the comparison fails with MissingCurrentValue,
  whatever the earlier rows hold. Otherwise the current values reported are these two
  values, at these two years, and the delta is the second minus the first (when the
  metric column is the Year column itself the script raises instead while it builds the
  combined rows).
\<close>

theorem current_value_at_latest_year:
  assumes "''Entity'' \<in> set (columns t)" "''Year'' \<in> set (columns t)"
    and col: "metric_column (columns t) m = Inr col"
    and nt: "\<forall>r\<in>set (country_data t a @ country_data t b). \<not> is_text (cell_at r col)"
    and a: "country_data t a = pa @ ra # qa" "\<forall>x\<in>set (country_data t a). Year x \<le> Year ra"
      "\<forall>x\<in>set pa. Year x < Year ra"
    and b: "country_data t b = pb @ rb # qb" "\<forall>x\<in>set (country_data t b). Year x \<le> Year rb"
      "\<forall>x\<in>set pb. Year x < Year rb"
  shows "if cell_at ra col = NA \<or> cell_at rb col = NA
         then compare t a b m = Inl MissingCurrentValue
         else if col = ''Year'' then compare t a b m = Inl (Unhandled ValueError)
         else \<exists>r. compare t a b m = Inr r \<and>
                Num (value_a r) = cell_at ra col \<and> latest_year_a r = Some (Year ra) \<and>
                Num (value_b r) = cell_at rb col \<and> latest_year_b r = Some (Year rb) \<and>
                delta r = value_b r - value_a r"
proof -
  have na: "country_data t a \<noteq> []" and nb: "country_data t b \<noteq> []"
    using a(1) b(1) by simp_all
  have ta: "\<not> list_ex is_text (map (\<lambda>r. cell_at r col) (country_data t a))"
    and tb: "\<not> list_ex is_text (map (\<lambda>r. cell_at r col) (country_data t b))"
    using nt by (auto simp: list_ex_iff)
  obtain sa where sa: "country_stats ReturnsNA (country_data t a) col = Inr sa"
    using country_stats_numeric[OF ta, of ReturnsNA] by (simp split: if_splits)
  obtain sb where sb: "country_stats ReturnsNA (country_data t b) col = Inr sb"
    using country_stats_numeric[OF tb, of ReturnsNA] by (simp split: if_splits)
  note eq = compare_with_reached[OF assms(1,2) na nb col sa sb]
  note fa = first_latest(1)[OF a] first_latest(2)[OF a, of col]
    and fb = first_latest(1)[OF b] first_latest(2)[OF b, of col]
  have ra: "ra \<in> set (country_data t a)" and rb: "rb \<in> set (country_data t b)"
    using a(1) b(1) by simp_all
  have nta: "\<not> is_text (cell_at ra col)" and ntb: "\<not> is_text (cell_at rb col)"
    using nt ra rb by simp_all
  have ne: "col \<noteq> ''Entity''"
    using nta by (auto simp: cell_at_def is_text_def)
  consider (missing) "cell_at ra col = NA \<or> cell_at rb col = NA"
    | (vals) x y where "cell_at ra col = Num x" "cell_at rb col = Num y"
    using nta ntb by (cases "cell_at ra col"; cases "cell_at rb col") (simp_all add: is_text_def)
  then show ?thesis
  proof cases
    case missing
    then have "isna (cell_at ra col) \<or> isna (cell_at rb col)"
      by (auto simp: isna_def)
    then have "compare t a b m = Inl MissingCurrentValue"
      unfolding compare_def eq fa fb by simp
    with missing show ?thesis by simp
  next
    case vals
    have e: "compare t a b m =
        (if col = ''Year'' then Inl (Unhandled ValueError)
         else Inr \<lparr>metric_col = col, latest_year_a = Some (Year ra),
                   latest_year_b = Some (Year rb), value_a = x, value_b = y, delta = y - x,
                   country_a_stats = sa, country_b_stats = sb,
                   combined_data = combine (country_data t a) (country_data t b) col\<rparr>)"
      unfolding compare_def eq fa fb vals using ne by (simp add: isna_def)
    have n: "\<not> (cell_at ra col = NA \<or> cell_at rb col = NA)"
      using vals by simp
    show ?thesis
    proof (cases "col = ''Year''")
      case True
      then have "compare t a b m = Inl (Unhandled ValueError)" using e by simp
      with n True show ?thesis by simp
    next
      case False
      then have "compare t a b m =
          Inr \<lparr>metric_col = col, latest_year_a = Some (Year ra),
                   latest_year_b = Some (Year rb), value_a = x, value_b = y, delta = y - x,
                   country_a_stats = sa, country_b_stats = sb,
                   combined_data = combine (country_data t a) (country_data t b) col\<rparr>"
        using e by simp
      with n False vals show ?thesis by simp
    qed
  qed
qed

theorem current_value_at_latest_year_witness:
  "compare stale_table ''Wakanda'' ''Genovia'' ''GDP per capita'' = Inl MissingCurrentValue \<and>
   (\<exists>r. compare example_table ''Wakanda'' ''Genovia'' ''GDP per capita'' = Inr r \<and>
        value_a r = 150 \<and> latest_year_a r = Some 2020 \<and>
        value_b r = 80 \<and> latest_year_b r = Some 2015 \<and> delta r = value_b r - value_a r)"
proof
  have c: "''Entity'' \<in> set (columns stale_table)" "''Year'' \<in> set (columns stale_table)"
    "metric_column (columns stale_table) ''GDP per capita'' = Inr ''GDP per capita''"
    by (simp_all add: stale_table_def gdp_column)
  show "compare stale_table ''Wakanda'' ''Genovia'' ''GDP per capita'' = Inl MissingCurrentValue"
    using current_value_at_latest_year[OF c _ stale_rows(1) _ _ stale_rows(2)]
    by (simp add: stale_rows gdp_row_def cell_at_def is_text_def)
  have c: "''Entity'' \<in> set (columns example_table)" "''Year'' \<in> set (columns example_table)"
    "metric_column (columns example_table) ''GDP per capita'' = Inr ''GDP per capita''"
    by (simp_all add: example_table_def gdp_column)
  show "\<exists>r. compare example_table ''Wakanda'' ''Genovia'' ''GDP per capita'' = Inr r \<and>
        value_a r = 150 \<and> latest_year_a r = Some 2020 \<and>
        value_b r = 80 \<and> latest_year_b r = Some 2015 \<and> delta r = value_b r - value_a r"
    using current_value_at_latest_year[OF c _ example_rows(1) _ _ example_rows(2)]
    by (simp add: example_rows gdp_row_def cell_at_def is_text_def)
qed

text \<open>
  C9, as amended. For the rows of a country whose metric column holds no text and at least
  one value, the statistics are computed; the maximum and the minimum are those of the
  values that are not missing, min \<le> max, and the exact mean of these values lies
  between them. The mean reported is the double obtained from the rounded sum and the
  count; min \<le> mean \<le> max holds for it whenever the values are doubles whose sum is added
  up without rounding, as for integers whose absolute values add up to at most \<open>2 ^ 53\<close>,
  and it can lie outside otherwise. In every comparison that succeeds both countries have
  a maximum, a minimum and a mean, with min \<le> max.
\<close>

theorem stats_bounds_with_rounding:
  "(\<not> list_ex is_text (map (\<lambda>r. cell_at r col) rs) \<and>
      (\<exists>r\<in>set rs. \<exists>v. cell_at r col = Num v) \<and>
      vs = nums (map (\<lambda>r. cell_at r col) rs) \<longrightarrow>
      (\<exists>s mx mn. country_stats pol rs col = Inr s \<and>
           stat_max s = Some mx \<and> stat_min s = Some mn \<and>
           stat_mean s = Some (float64 (float_sum vs / of_nat (length vs))) \<and>
           mx = Max {v. \<exists>r\<in>set rs. cell_at r col = Num v} \<and>
           mn = Min {v. \<exists>r\<in>set rs. cell_at r col = Num v} \<and>
           map Num vs = filter (\<lambda>c. \<not> isna c) (map (\<lambda>r. cell_at r col) rs) \<and>
           mn \<le> mx \<and>
           mn \<le> sum_list vs / of_nat (length vs) \<and> sum_list vs / of_nat (length vs) \<le> mx \<and>
           ((\<forall>v\<in>set vs. float64 v = v) \<and> float_sum vs = sum_list vs \<longrightarrow>
              mn \<le> float64 (float_sum vs / of_nat (length vs)) \<and>
              float64 (float_sum vs / of_nat (length vs)) \<le> mx) \<and>
           ((\<exists>ks. vs = map of_int ks \<and> (\<Sum>k\<leftarrow>ks. \<bar>k\<bar>) \<le> 2 ^ 53) \<longrightarrow>
              mn \<le> float64 (float_sum vs / of_nat (length vs)) \<and>
              float64 (float_sum vs / of_nat (length vs)) \<le> mx))) \<and>
   (compare_with pol t a b m = Inr r \<longrightarrow>
      (\<exists>mx mn me. stat_max (country_a_stats r) = Some mx \<and>
           stat_min (country_a_stats r) = Some mn \<and>
           stat_mean (country_a_stats r) = Some me \<and> mn \<le> mx) \<and>
      (\<exists>mx mn me. stat_max (country_b_stats r) = Some mx \<and>
           stat_min (country_b_stats r) = Some mn \<and>
           stat_mean (country_b_stats r) = Some me \<and> mn \<le> mx))"
proof (intro conjI impI)
  assume "\<not> list_ex is_text (map (\<lambda>r. cell_at r col) rs) \<and>
      (\<exists>r\<in>set rs. \<exists>v. cell_at r col = Num v) \<and>
      vs = nums (map (\<lambda>r. cell_at r col) rs)"
  then show "\<exists>s mx mn. country_stats pol rs col = Inr s \<and>
           stat_max s = Some mx \<and> stat_min s = Some mn \<and>
           stat_mean s = Some (float64 (float_sum vs / of_nat (length vs))) \<and>
           mx = Max {v. \<exists>r\<in>set rs. cell_at r col = Num v} \<and>
           mn = Min {v. \<exists>r\<in>set rs. cell_at r col = Num v} \<and>
           map Num vs = filter (\<lambda>c. \<not> isna c) (map (\<lambda>r. cell_at r col) rs) \<and>
           mn \<le> mx \<and>
           mn \<le> sum_list vs / of_nat (length vs) \<and> sum_list vs / of_nat (length vs) \<le> mx \<and>
           ((\<forall>v\<in>set vs. float64 v = v) \<and> float_sum vs = sum_list vs \<longrightarrow>
              mn \<le> float64 (float_sum vs / of_nat (length vs)) \<and>
              float64 (float_sum vs / of_nat (length vs)) \<le> mx) \<and>
           ((\<exists>ks. vs = map of_int ks \<and> (\<Sum>k\<leftarrow>ks. \<bar>k\<bar>) \<le> 2 ^ 53) \<longrightarrow>
              mn \<le> float64 (float_sum vs / of_nat (length vs)) \<and>
              float64 (float_sum vs / of_nat (length vs)) \<le> mx)"
    by (intro stats_of_values) simp_all
next
  assume ok: "compare_with pol t a b m = Inr r"
  note d = compare_with_InrD[OF ok]
  have sa: "country_stats pol (country_data t a) (metric_col r) = Inr (country_a_stats r)"
    and la: "latest_value (country_data t a) (metric_col r) = Num (value_a r)"
    using d by simp_all
  have ex: "\<exists>x\<in>set (country_data t a). \<exists>v. cell_at x (metric_col r) = Num v"
    using latest_value_mem[OF la] by blast
  from stats_of_values[OF country_stats_no_text[OF sa] ex refl, of pol]
  obtain s mx mn where "country_stats pol (country_data t a) (metric_col r) = Inr s"
    "stat_max s = Some mx" "stat_min s = Some mn" "\<exists>me. stat_mean s = Some me" "mn \<le> mx"
    by blast
  then show "\<exists>mx mn me. stat_max (country_a_stats r) = Some mx \<and>
      stat_min (country_a_stats r) = Some mn \<and>
      stat_mean (country_a_stats r) = Some me \<and> mn \<le> mx"
    using sa by auto
next
  assume ok: "compare_with pol t a b m = Inr r"
  note d = compare_with_InrD[OF ok]
  have sb: "country_stats pol (country_data t b) (metric_col r) = Inr (country_b_stats r)"
    and lb: "latest_value (country_data t b) (metric_col r) = Num (value_b r)"
    using d by simp_all
  have ex: "\<exists>x\<in>set (country_data t b). \<exists>v. cell_at x (metric_col r) = Num v"
    using latest_value_mem[OF lb] by blast
  from stats_of_values[OF country_stats_no_text[OF sb] ex refl, of pol]
  obtain s mx mn where "country_stats pol (country_data t b) (metric_col r) = Inr s"
    "stat_max s = Some mx" "stat_min s = Some mn" "\<exists>me. stat_mean s = Some me" "mn \<le> mx"
    by blast
  then show "\<exists>mx mn me. stat_max (country_b_stats r) = Some mx \<and>
      stat_min (country_b_stats r) = Some mn \<and>
      stat_mean (country_b_stats r) = Some me \<and> mn \<le> mx"
    using sb by auto
qed

theorem stats_bounds_with_rounding_witness:
  "(\<exists>s mx mn.
      country_stats Raises (country_data gap_table ''Wakanda'') ''GDP per capita'' = Inr s \<and>
      stat_max s = Some mx \<and> stat_min s = Some mn \<and>
      stat_mean s = Some (float64 (float_sum [100, 150] / of_nat (length [100, 150 :: rat]))) \<and>
      mn \<le> float64 (float_sum [100, 150] / of_nat (length [100, 150 :: rat])) \<and>
      float64 (float_sum [100, 150] / of_nat (length [100, 150 :: rat])) \<le> mx) \<and>
   (\<exists>mx mn me. stat_max (country_a_stats gap_result) = Some mx \<and>
      stat_min (country_a_stats gap_result) = Some mn \<and>
      stat_mean (country_a_stats gap_result) = Some me \<and> mn \<le> mx)"
proof
  have h: "\<not> list_ex is_text
             (map (\<lambda>r. cell_at r ''GDP per capita'') (country_data gap_table ''Wakanda'')) \<and>
           (\<exists>r\<in>set (country_data gap_table ''Wakanda''). \<exists>v. cell_at r ''GDP per capita'' = Num v) \<and>
           [100, 150] =
             nums (map (\<lambda>r. cell_at r ''GDP per capita'') (country_data gap_table ''Wakanda''))"
    by (simp add: gap_table_def country_data_def gdp_row_def cell_at_def is_text_def)
  have e: "(\<forall>v\<in>set [100, 150 :: rat]. float64 v = v) \<and> float_sum [100, 150] = sum_list [100, 150]"
    by (simp add: float_eval)
  have i: "\<exists>ks. [100, 150 :: rat] = map of_int ks \<and> (\<Sum>k\<leftarrow>ks. \<bar>k\<bar>) \<le> 2 ^ 53"
    by (intro exI[of _ "[100, 150]"]) simp
  from stats_bounds_with_rounding[where pol = Raises
        and rs = "country_data gap_table ''Wakanda''"
        and col = "''GDP per capita''" and vs = "[100, 150]", THEN conjunct1, THEN mp, OF h] e i
  show "\<exists>s mx mn.
      country_stats Raises (country_data gap_table ''Wakanda'') ''GDP per capita'' = Inr s \<and>
      stat_max s = Some mx \<and> stat_min s = Some mn \<and>
      stat_mean s = Some (float64 (float_sum [100, 150] / of_nat (length [100, 150 :: rat]))) \<and>
      mn \<le> float64 (float_sum [100, 150] / of_nat (length [100, 150 :: rat])) \<and>
      float64 (float_sum [100, 150] / of_nat (length [100, 150 :: rat])) \<le> mx"
    by blast
  from stats_bounds_with_rounding[where pol = ReturnsNA and t = gap_table and a = "''Wakanda''"
        and b = "''Genovia''" and m = "''GDP per capita''" and r = gap_result,
        THEN conjunct2, THEN mp, OF gap_compare[of ReturnsNA], THEN conjunct1]
  show "\<exists>mx mn me. stat_max (country_a_stats gap_result) = Some mx \<and>
      stat_min (country_a_stats gap_result) = Some mn \<and>
      stat_mean (country_a_stats gap_result) = Some me \<and> mn \<le> mx" .
qed

text \<open>
  C9 as stated fails: three rows of Wakanda hold 0.1, that is the double nearest to it.
  The sum of the three rounds up, and so does its third: the mean reported is one unit in
  the last place above the maximum.
\<close>

theorem stats_mean_above_max:
  "float64 (1 / 10) = tenth \<and>
   map_sum id country_a_stats
     (compare tenth_table ''Wakanda'' ''Genovia'' ''GDP per capita'') =
     Inr \<lparr>stat_max = Some tenth, stat_min = Some tenth,
          stat_mean = Some (7205759403792795 / 2 ^ 56),
          max_year = Some 2000, min_year = Some 2000\<rparr> \<and>
   tenth < 7205759403792795 / 2 ^ 56"
proof (intro conjI)
  show "float64 (1 / 10) = tenth"
    by (simp add: tenth_def float_eval)
  show "tenth < 7205759403792795 / 2 ^ 56"
    by (simp add: tenth_def)
  show "map_sum id country_a_stats
     (compare tenth_table ''Wakanda'' ''Genovia'' ''GDP per capita'') =
     Inr \<lparr>stat_max = Some tenth, stat_min = Some tenth,
          stat_mean = Some (7205759403792795 / 2 ^ 56),
          max_year = Some 2000, min_year = Some 2000\<rparr>"
    by (simp add: compare_def compare_with_def example_defs tenth_table_def tenth_def)
qed

text \<open>
  C10, as amended. Let the table pass the earlier checks and let the metric column, free
  of text, hold no value at all in the rows of one of the two countries. With \<^verbatim>\<open>idxmax\<close>
  and \<^verbatim>\<open>idxmin\<close> returning a missing label on such a column, which is the case the
  script guards with \<^verbatim>\<open>pd.isna\<close>, the statistics of that country are computed (all of
  them missing, both years \<^verbatim>\<open>None\<close>) and the comparison ends with the handled error
  MissingCurrentValue. Only with a pandas release whose \<^verbatim>\<open>idxmax\<close> raises on such a
  column does \<^verbatim>\<open>ValueError\<close> escape from the statistics.
\<close>

theorem all_missing_column_outcome:
  assumes c: "''Entity'' \<in> set (columns t)" "''Year'' \<in> set (columns t)"
    and na: "country_data t a \<noteq> []" and nb: "country_data t b \<noteq> []"
    and col: "metric_column (columns t) m = Inr col"
    and nt: "\<forall>r\<in>set (country_data t a @ country_data t b). \<not> is_text (cell_at r col)"
    and miss: "(\<forall>r\<in>set (country_data t a). cell_at r col = NA) \<or>
               (\<forall>r\<in>set (country_data t b). cell_at r col = NA)"
  shows "compare_with ReturnsNA t a b m = Inl MissingCurrentValue \<and>
         compare_with Raises t a b m = Inl (Unhandled ValueError) \<and>
         ((\<forall>r\<in>set (country_data t a). cell_at r col = NA) \<longrightarrow>
            country_stats ReturnsNA (country_data t a) col =
              Inr \<lparr>stat_max = None, stat_min = None, stat_mean = None,
                   max_year = None, min_year = None\<rparr>) \<and>
         ((\<forall>r\<in>set (country_data t b). cell_at r col = NA) \<longrightarrow>
            country_stats ReturnsNA (country_data t b) col =
              Inr \<lparr>stat_max = None, stat_min = None, stat_mean = None,
                   max_year = None, min_year = None\<rparr>)"
proof (intro conjI impI)
  have ta: "\<not> list_ex is_text (map (\<lambda>r. cell_at r col) (country_data t a))"
    and tb: "\<not> list_ex is_text (map (\<lambda>r. cell_at r col) (country_data t b))"
    using nt by (auto simp: list_ex_iff)
  obtain sa where sa: "country_stats ReturnsNA (country_data t a) col = Inr sa"
    using country_stats_numeric[OF ta, of ReturnsNA] by (simp split: if_splits)
  obtain sb where sb: "country_stats ReturnsNA (country_data t b) col = Inr sb"
    using country_stats_numeric[OF tb, of ReturnsNA] by (simp split: if_splits)
  have "isna (latest_value (country_data t a) col) \<or> isna (latest_value (country_data t b) col)"
    using miss latest_value_all_NA[of "country_data t a" col]
      latest_value_all_NA[of "country_data t b" col]
    by (auto simp: isna_def)
  then show "compare_with ReturnsNA t a b m = Inl MissingCurrentValue"
    unfolding compare_with_reached[OF c na nb col sa sb] by simp
  show "compare_with Raises t a b m = Inl (Unhandled ValueError)"
  proof (cases "country_stats Raises (country_data t a) col")
    case (Inl e)
    then have "e = ValueError"
      using country_stats_numeric[OF ta, of Raises] by (simp split: if_splits)
    with Inl show ?thesis using compare_with_stats_raise(1)[OF c na nb col] by simp
  next
    case (Inr s)
    then have "nums (map (\<lambda>r. cell_at r col) (country_data t a)) \<noteq> []"
      using country_stats_numeric[OF ta, of Raises] by (auto split: if_splits)
    then have "\<not> (\<forall>r\<in>set (country_data t a). cell_at r col = NA)"
      using all_NA_nums(1)[of "country_data t a" col] by blast
    with miss have "\<forall>r\<in>set (country_data t b). cell_at r col = NA" by blast
    then have "country_stats Raises (country_data t b) col = Inl ValueError"
      by (rule all_NA_stats(2))
    then show ?thesis using compare_with_stats_raise(2)[OF c na nb col Inr] by simp
  qed
next
  assume "\<forall>r\<in>set (country_data t a). cell_at r col = NA"
  then show "country_stats ReturnsNA (country_data t a) col =
              Inr \<lparr>stat_max = None, stat_min = None, stat_mean = None,
                   max_year = None, min_year = None\<rparr>"
    by (rule all_NA_stats(1))
next
  assume "\<forall>r\<in>set (country_data t b). cell_at r col = NA"
  then show "country_stats ReturnsNA (country_data t b) col =
              Inr \<lparr>stat_max = None, stat_min = None, stat_mean = None,
                   max_year = None, min_year = None\<rparr>"
    by (rule all_NA_stats(1))
qed

theorem all_missing_column_outcome_witness:
  "compare_with ReturnsNA all_missing_table ''Wakanda'' ''Genovia'' ''GDP per capita'' =
     Inl MissingCurrentValue \<and>
   compare_with Raises all_missing_table ''Wakanda'' ''Genovia'' ''GDP per capita'' =
     Inl (Unhandled ValueError)"
proof -
  have c: "''Entity'' \<in> set (columns all_missing_table)"
    "''Year'' \<in> set (columns all_missing_table)"
    "country_data all_missing_table ''Wakanda'' \<noteq> []"
    "country_data all_missing_table ''Genovia'' \<noteq> []"
    "metric_column (columns all_missing_table) ''GDP per capita'' = Inr ''GDP per capita''"
    by (simp_all add: all_missing_rows) (simp_all add: all_missing_table_def gdp_column)
  have nt: "\<forall>r\<in>set (country_data all_missing_table ''Wakanda'' @
                      country_data all_missing_table ''Genovia'').
              \<not> is_text (cell_at r ''GDP per capita'')"
    by (simp add: all_missing_rows gdp_row_def cell_at_def is_text_def)
  have miss: "(\<forall>r\<in>set (country_data all_missing_table ''Wakanda'').
                 cell_at r ''GDP per capita'' = NA) \<or>
              (\<forall>r\<in>set (country_data all_missing_table ''Genovia'').
                 cell_at r ''GDP per capita'' = NA)"
    by (simp add: all_missing_rows gdp_row_def cell_at_def)
  from all_missing_column_outcome[OF c nt miss] show ?thesis by blast
qed

text \<open>
  C10 as stated fails for the script as written: Wakanda has rows, none with a value; the
  statistics are computed and the comparison reports MissingCurrentValue.
\<close>

theorem all_missing_column_handled:
  "country_stats ReturnsNA (country_data all_missing_table ''Wakanda'') ''GDP per capita'' =
     Inr \<lparr>stat_max = None, stat_min = None, stat_mean = None,
          max_year = None, min_year = None\<rparr> \<and>
   compare all_missing_table ''Wakanda'' ''Genovia'' ''GDP per capita'' =
     Inl MissingCurrentValue"
proof -
  have cols: "columns all_missing_table = [''Entity'', ''Code'', ''Year'', ''GDP per capita'']"
    by (simp add: all_missing_table_def)
  show ?thesis
    by (simp add: compare_def compare_with_def all_missing_rows cols gdp_column
      gdp_row_def country_stats_def year_at_def series_max_def series_min_def series_mean_def
      cell_at_def is_text_def isna_def year_max_def latest_rows_def latest_value_def Let_def)
qed

text \<open>
  C6, as amended. Take a response whose body has no data rows: no line at all, or a header
  line only. With status 200 the function returns, and raises nothing: the empty table
  with the columns of the header when the reader parses the header, the caught failure of
  the reader otherwise (\<^verbatim>\<open>EmptyDataError\<close> for a body with no line, an empty body
  included). With any other status, 204 included, it returns the status failure and does
  not read the body.
\<close>

theorem fetch_body_without_rows:
  assumes "get url = Inr resp"
    and "csv_records (content resp) = [] \<or> csv_records (content resp) = [h]"
  shows "fetch_country_data get (pd_read_csv parse_header parse_rows) url =
           (if status_code resp \<noteq> 200 then Inl (BadStatus (status_code resp))
            else if csv_records (content resp) = [] then Inl (Caught EmptyDataError)
            else case parse_header h of
                   Inr cols \<Rightarrow> Inr \<lparr>columns = cols, rows = []\<rparr>
                 | Inl e \<Rightarrow> Inl (Caught e)) \<and>
         (content resp = [] \<longrightarrow> csv_records (content resp) = [])"
  using assms
  by (auto simp: fetch_country_data_def pd_read_csv_def csv_records_Nil split: sum.splits)

theorem fetch_body_without_rows_witness:
  "fetch_country_data statuses_get (pd_read_csv plain_header no_rows)
     ''https://example.org/header.csv'' =
     Inr \<lparr>columns = [''Entity'', ''Code'', ''Year'', ''GDP per capita''], rows = []\<rparr> \<and>
   fetch_country_data statuses_get (pd_read_csv plain_header no_rows)
     ''https://example.org/empty.csv'' = Inl (Caught EmptyDataError) \<and>
   fetch_country_data statuses_get (pd_read_csv plain_header no_rows)
     ''https://example.org/no-content'' = Inl (BadStatus 204)"
proof (intro conjI)
  have g1: "statuses_get ''https://example.org/header.csv'' =
      Inr \<lparr>status_code = 200, content = ''Entity,Code,Year,GDP per capita'' @ [CHR 0x0A]\<rparr>"
    by (simp add: statuses_get_def)
  have r1: "csv_records (content \<lparr>status_code = 200,
        content = ''Entity,Code,Year,GDP per capita'' @ [CHR 0x0A]\<rparr>) = [] \<or>
      csv_records (content \<lparr>status_code = 200,
        content = ''Entity,Code,Year,GDP per capita'' @ [CHR 0x0A]\<rparr>) =
        [''Entity,Code,Year,GDP per capita'']"
    by (simp add: csv_records_def is_blank_def)
  from fetch_body_without_rows[where get = statuses_get and url = "''https://example.org/header.csv''"
        and resp = "\<lparr>status_code = 200,
          content = ''Entity,Code,Year,GDP per capita'' @ [CHR 0x0A]\<rparr>"
        and h = "''Entity,Code,Year,GDP per capita''"
        and parse_header = plain_header and parse_rows = no_rows, OF g1 r1, THEN conjunct1]
  show "fetch_country_data statuses_get (pd_read_csv plain_header no_rows)
     ''https://example.org/header.csv'' =
     Inr \<lparr>columns = [''Entity'', ''Code'', ''Year'', ''GDP per capita''], rows = []\<rparr>"
    by (simp add: csv_records_def is_blank_def plain_header_def)
  have g2: "statuses_get ''https://example.org/empty.csv'' = Inr \<lparr>status_code = 200, content = []\<rparr>"
    by (simp add: statuses_get_def)
  have r2: "csv_records (content \<lparr>status_code = 200, content = []\<rparr>) = [] \<or>
      csv_records (content \<lparr>status_code = 200, content = []\<rparr>) = [[]]"
    by (simp add: csv_records_Nil)
  from fetch_body_without_rows[where get = statuses_get and url = "''https://example.org/empty.csv''"
        and resp = "\<lparr>status_code = 200, content = []\<rparr>" and h = "[]"
        and parse_header = plain_header and parse_rows = no_rows, OF g2 r2, THEN conjunct1]
  show "fetch_country_data statuses_get (pd_read_csv plain_header no_rows)
     ''https://example.org/empty.csv'' = Inl (Caught EmptyDataError)"
    by (simp add: csv_records_Nil)
  have g3: "statuses_get ''https://example.org/no-content'' = Inr \<lparr>status_code = 204, content = []\<rparr>"
    by (simp add: statuses_get_def)
  have r3: "csv_records (content \<lparr>status_code = 204, content = []\<rparr>) = [] \<or>
      csv_records (content \<lparr>status_code = 204, content = []\<rparr>) = [[]]"
    by (simp add: csv_records_Nil)
  from fetch_body_without_rows[where get = statuses_get and url = "''https://example.org/no-content''"
        and resp = "\<lparr>status_code = 204, content = []\<rparr>" and h = "[]"
        and parse_header = plain_header and parse_rows = no_rows, OF g3 r3, THEN conjunct1]
  show "fetch_country_data statuses_get (pd_read_csv plain_header no_rows)
     ''https://example.org/no-content'' = Inl (BadStatus 204)"
    by simp
qed

text \<open>
  C6 as stated fails for the successful response 204 (No Content), whose body is empty:
  the result is neither an empty table nor a failure of the reader, it is the status
  failure.
\<close>

theorem fetch_no_content_status:
  "fetch_country_data statuses_get (pd_read_csv plain_header no_rows)
     ''https://example.org/no-content'' = Inl (BadStatus 204) \<and>
   statuses_get ''https://example.org/no-content'' = Inr \<lparr>status_code = 204, content = []\<rparr>"
  by (simp add: fetch_country_data_def statuses_get_def)

text \<open>
  C7. Let the catalog be read from a sheet, the local file or else the upload. Every
  loaded entry has a link that is neither missing nor the empty text, and the loaded
  entries are the rows of the sheet, in their order, whose link cell is neither empty nor
  a missing-value marker; the empty text is such a marker. When the sheet has the link
  column the catalog is loaded.
\<close>

theorem load_dataset_excludes_empty_links:
  assumes src: "local_file = Some (Inr (pd_read_excel sheet)) \<or>
                local_file = None \<and> uploaded_file = Some (Inr (pd_read_excel sheet))"
  shows "(load_dataset local_file uploaded_file = Some df \<longrightarrow>
            (\<forall>e\<in>set (entries df). link e \<noteq> NA \<and> link e \<noteq> Str []) \<and>
            entries df =
              map read_entry
                (filter (\<lambda>e. link e \<noteq> NA \<and> link e \<notin> Str ` set default_na_values)
                   (entries sheet))) \<and>
         (''data link full column names'' \<in> set (cat_columns sheet) \<longrightarrow>
            (\<exists>df. load_dataset local_file uploaded_file = Some df)) \<and>
         [] \<in> set default_na_values"
proof (intro conjI impI)
  note l = load_dataset_read[OF src]
  have f: "filter (\<lambda>e. link e \<noteq> NA) (map read_entry es) =
      map read_entry (filter (\<lambda>e. link e \<noteq> NA \<and> link e \<notin> Str ` set default_na_values) es)"
    for es
    by (induction es) (auto simp: read_entry_def read_cell_NA_iff)
  {
    assume ok: "load_dataset local_file uploaded_file = Some df"
    then have d: "df = (pd_read_excel sheet)\<lparr>entries :=
        filter (\<lambda>e. link e \<noteq> NA) (entries (pd_read_excel sheet))\<rparr>"
      unfolding l by (simp split: if_splits)
    have e: "entries df = filter (\<lambda>e. link e \<noteq> NA) (entries (pd_read_excel sheet))"
      by (subst d) simp
    show "\<forall>e\<in>set (entries df). link e \<noteq> NA \<and> link e \<noteq> Str []"
      unfolding e using read_excel_links[of sheet] by simp
    show "entries df =
              map read_entry
                (filter (\<lambda>e. link e \<noteq> NA \<and> link e \<notin> Str ` set default_na_values)
                   (entries sheet))"
      unfolding e by (simp add: pd_read_excel_def f)
  }
  {
    assume "''data link full column names'' \<in> set (cat_columns sheet)"
    then show "\<exists>df. load_dataset local_file uploaded_file = Some df"
      unfolding l by (simp add: pd_read_excel_def)
  }
  show "[] \<in> set default_na_values" by (simp add: default_na_values_def)
qed

theorem load_dataset_excludes_empty_links_witness:
  "load_dataset None (Some (Inr (pd_read_excel blank_link_sheet))) =
     Some (catalog_of [entry ''GDP per capita'' (Str ''https://example.org/data.csv'')])"
proof -
  have src: "None = Some (Inr (pd_read_excel blank_link_sheet)) \<or>
      None = None \<and> Some (Inr (pd_read_excel blank_link_sheet)) = Some (Inr (pd_read_excel blank_link_sheet))"
    by simp
  have c: "''data link full column names'' \<in> set (cat_columns blank_link_sheet)"
    by (simp add: blank_link_sheet_def catalog_of_def)
  from load_dataset_excludes_empty_links[OF src, THEN conjunct2, THEN conjunct1, THEN mp, OF c]
  obtain df where df: "load_dataset None (Some (Inr (pd_read_excel blank_link_sheet))) = Some df"
    by blast
  from load_dataset_excludes_empty_links[OF src, of df, THEN conjunct1, THEN mp, OF df]
  have e: "entries df = [entry ''GDP per capita'' (Str ''https://example.org/data.csv'')]"
    by (simp add: blank_link_sheet_def catalog_of_def entry_def read_entry_def read_cell_def
        default_na_values_def)
  have "cat_columns df = [''metric'', ''data link full column names'']"
    using df unfolding load_dataset_read[OF src]
    by (auto simp: pd_read_excel_def blank_link_sheet_def catalog_of_def split: if_splits)
  with e have "df = catalog_of [entry ''GDP per capita'' (Str ''https://example.org/data.csv'')]"
    by (cases df) (simp add: catalog_of_def)
  with df show ?thesis by simp
qed




end
